theory Spec2Isabelle
  imports Main "HOL-Library.Multiset"
begin

section \<open>Data model (shared/schema.ts)\<close>

text \<open>
  Identifiers are JavaScript numbers that only ever hold integers: \<open>int\<close>.
  A column that may hold \<open>null\<close> is an \<open>option\<close>. A \<open>Date\<close> is the integer that
  \<open>getTime()\<close> returns (milliseconds). Several records of the schema have fields of the
  same name (\<open>id\<close>, \<open>userId\<close>, \<open>name\<close>, \<open>createdAt\<close>), so every field carries a
  one-letter prefix of its record.
\<close>

record User =
  u_id :: int
  u_name :: string
  u_email :: "string option"
  u_password :: string
  u_familyGroupId :: "int option"

record FamilyGroup =
  g_id :: int
  g_name :: string
  g_inviteCode :: string
  g_createdAt :: "int option"

record WishlistItem =
  w_id :: int
  w_userId :: int
  w_name :: string
  w_description :: "string option"
  w_price :: "int option"
  w_category :: "string option"
  w_priority :: "string option"
  w_storeLink :: "string option"
  w_imageUrl :: "string option"
  w_isReserved :: "bool option"
  w_reservedByUserId :: "int option"
  w_createdAt :: "int option"

record Activity =
  a_id :: int
  a_userId :: int
  a_familyGroupId :: int
  a_action :: string
  a_itemName :: "string option"
  a_targetUserId :: "int option"
  a_createdAt :: "int option"

record SecretNote =
  n_id :: int
  n_wishlistItemId :: int
  n_userId :: int
  n_note :: string
  n_createdAt :: "int option"

text \<open>
  \<open>InsertUser\<close>: the three fields picked by \<open>insertUserSchema\<close>. The routes treat
  \<open>email\<close> as optional (child accounts have none).
\<close>

record InsertUser =
  iu_name :: string
  iu_email :: "string option"
  iu_password :: string

text \<open>\<open>InsertWishlistItem\<close>: the seven fields picked by \<open>insertWishlistItemSchema\<close>.\<close>

record InsertWishlistItem =
  iw_name :: string
  iw_description :: "string option"
  iw_price :: "int option"
  iw_category :: "string option"
  iw_priority :: "string option"
  iw_storeLink :: "string option"
  iw_imageUrl :: "string option"

text \<open>\<open>InsertSecretNote\<close>: the two fields picked by \<open>insertSecretNoteSchema\<close>.\<close>

record InsertSecretNote =
  in_wishlistItemId :: int
  in_note :: string

text \<open>
  \<open>Partial<WishlistItem>\<close>: every key of a wishlist item may be present or absent.
  \<open>None\<close> is an absent key; for a nullable column \<open>Some None\<close> is the key present with
  \<open>null\<close>.
\<close>

record PartialWishlistItem =
  pw_id :: "int option"
  pw_userId :: "int option"
  pw_name :: "string option"
  pw_description :: "string option option"
  pw_price :: "int option option"
  pw_category :: "string option option"
  pw_priority :: "string option option"
  pw_storeLink :: "string option option"
  pw_imageUrl :: "string option option"
  pw_isReserved :: "bool option option"
  pw_reservedByUserId :: "int option option"
  pw_createdAt :: "int option option"

definition no_updates :: PartialWishlistItem where
  "no_updates = \<lparr> pw_id = None, pw_userId = None, pw_name = None, pw_description = None,
     pw_price = None, pw_category = None, pw_priority = None, pw_storeLink = None,
     pw_imageUrl = None, pw_isReserved = None, pw_reservedByUserId = None,
     pw_createdAt = None \<rparr>"

text \<open>The object spread \<open>{ ...item, ...updates }\<close>: a key present in \<open>updates\<close> wins.\<close>

definition spread :: "'a \<Rightarrow> 'a option \<Rightarrow> 'a" where
  "spread old upd = (case upd of None \<Rightarrow> old | Some v \<Rightarrow> v)"

definition spread_item :: "WishlistItem \<Rightarrow> PartialWishlistItem \<Rightarrow> WishlistItem" where
  "spread_item item updates =
     \<lparr> w_id = spread (w_id item) (pw_id updates),
       w_userId = spread (w_userId item) (pw_userId updates),
       w_name = spread (w_name item) (pw_name updates),
       w_description = spread (w_description item) (pw_description updates),
       w_price = spread (w_price item) (pw_price updates),
       w_category = spread (w_category item) (pw_category updates),
       w_priority = spread (w_priority item) (pw_priority updates),
       w_storeLink = spread (w_storeLink item) (pw_storeLink updates),
       w_imageUrl = spread (w_imageUrl item) (pw_imageUrl updates),
       w_isReserved = spread (w_isReserved item) (pw_isReserved updates),
       w_reservedByUserId = spread (w_reservedByUserId item) (pw_reservedByUserId updates),
       w_createdAt = spread (w_createdAt item) (pw_createdAt updates) \<rparr>"

section \<open>The JavaScript \<open>Map\<close> and array primitives the store uses\<close>

text \<open>
  A \<open>Map<number, V>\<close> keeps its entries in insertion order: an association list.
  \<open>set\<close> on a key already present replaces the value where it stands, \<open>set\<close> on a new
  key appends; \<open>delete\<close> removes the entry and tells whether there was one.
\<close>

type_synonym 'v js_map = "(int \<times> 'v) list"

fun Map_get :: "'v js_map \<Rightarrow> int \<Rightarrow> 'v option" where
  "Map_get [] k = None"
| "Map_get ((k', v) # m) k = (if k' = k then Some v else Map_get m k)"

fun Map_set :: "'v js_map \<Rightarrow> int \<Rightarrow> 'v \<Rightarrow> 'v js_map" where
  "Map_set [] k v = [(k, v)]"
| "Map_set ((k', v') # m) k v =
     (if k' = k then (k, v) # m else (k', v') # Map_set m k v)"

definition Map_delete :: "'v js_map \<Rightarrow> int \<Rightarrow> 'v js_map" where
  "Map_delete m k = filter (\<lambda>entry. fst entry \<noteq> k) m"

definition Map_has :: "'v js_map \<Rightarrow> int \<Rightarrow> bool" where
  "Map_has m k = (Map_get m k \<noteq> None)"

definition Map_values :: "'v js_map \<Rightarrow> 'v list" where
  "Map_values m = map snd m"

text \<open>\<open>Array.prototype.find\<close>: the first element satisfying the predicate, or \<open>undefined\<close>.\<close>

fun array_find :: "('a \<Rightarrow> bool) \<Rightarrow> 'a list \<Rightarrow> 'a option" where
  "array_find p [] = None"
| "array_find p (x # xs) = (if p x then Some x else array_find p xs)"

text \<open>
  \<open>Array.prototype.sort(cmp)\<close> is a stable sort: \<open>a\<close> is placed before \<open>b\<close> when
  \<open>cmp(a, b) < 0\<close> and elements that compare equal keep their order. It is modelled
  as the stable insertion sort under the comparator.
\<close>

fun insort_cmp :: "('a \<Rightarrow> 'a \<Rightarrow> int) \<Rightarrow> 'a \<Rightarrow> 'a list \<Rightarrow> 'a list" where
  "insort_cmp cmp x [] = [x]"
| "insort_cmp cmp x (y # ys) =
     (if cmp x y \<le> 0 then x # y # ys else y # insort_cmp cmp x ys)"

definition array_sort :: "('a \<Rightarrow> 'a \<Rightarrow> int) \<Rightarrow> 'a list \<Rightarrow> 'a list" where
  "array_sort cmp xs = foldr (insort_cmp cmp) xs []"

text \<open>\<open>d?.getTime() || 0\<close>: the timestamp, and 0 for \<open>null\<close> (and for the timestamp 0).\<close>

definition getTime_or_0 :: "int option \<Rightarrow> int" where
  "getTime_or_0 d = (case d of None \<Rightarrow> 0 | Some t \<Rightarrow> t)"

text \<open>Truthiness of a nullable number (\<open>null\<close> and 0 are falsy) and of a nullable boolean.\<close>

definition truthy_num :: "int option \<Rightarrow> bool" where
  "truthy_num x = (case x of None \<Rightarrow> False | Some n \<Rightarrow> n \<noteq> 0)"

definition truthy_bool :: "bool option \<Rightarrow> bool" where
  "truthy_bool x = (case x of None \<Rightarrow> False | Some b \<Rightarrow> b)"

section \<open>MemStorage (server/storage.ts)\<close>

text \<open>
  The state of a \<open>MemStorage\<close> object. Every method takes the store and returns the
  store it leaves, with its result. A method that calls \<open>new Date()\<close> takes the clock
  reading \<open>now\<close> as an argument.
\<close>

record MemStorage =
  users :: "User js_map"
  familyGroups :: "FamilyGroup js_map"
  wishlistItems :: "WishlistItem js_map"
  activities :: "Activity js_map"
  secretNotes :: "SecretNote js_map"
  currentUserId :: int
  currentFamilyGroupId :: int
  currentWishlistItemId :: int
  currentActivityId :: int
  currentSecretNoteId :: int

definition new_MemStorage :: MemStorage where
  "new_MemStorage = \<lparr> users = [], familyGroups = [], wishlistItems = [], activities = [],
     secretNotes = [], currentUserId = 1, currentFamilyGroupId = 1,
     currentWishlistItemId = 1, currentActivityId = 1, currentSecretNoteId = 1 \<rparr>"

definition getUser :: "MemStorage \<Rightarrow> int \<Rightarrow> User option" where
  "getUser s i = Map_get (users s) i"

definition getUserByEmail :: "MemStorage \<Rightarrow> string \<Rightarrow> User option" where
  "getUserByEmail s email = array_find (\<lambda>user. u_email user = Some email) (Map_values (users s))"

definition createUser :: "MemStorage \<Rightarrow> InsertUser \<Rightarrow> MemStorage \<times> User" where
  "createUser s insertUser =
     (let i = currentUserId s;
          user = \<lparr> u_id = i, u_name = iu_name insertUser, u_email = iu_email insertUser,
                   u_password = iu_password insertUser, u_familyGroupId = None \<rparr>
      in (s\<lparr>currentUserId := i + 1, users := Map_set (users s) i user\<rparr>, user))"

definition updateUserFamilyGroup :: "MemStorage \<Rightarrow> int \<Rightarrow> int \<Rightarrow> MemStorage \<times> User option" where
  "updateUserFamilyGroup s userId familyGroupId =
     (case Map_get (users s) userId of
        None \<Rightarrow> (s, None)
      | Some user \<Rightarrow>
          (let updatedUser = user\<lparr>u_familyGroupId := Some familyGroupId\<rparr>
           in (s\<lparr>users := Map_set (users s) userId updatedUser\<rparr>, Some updatedUser)))"

definition getFamilyGroup :: "MemStorage \<Rightarrow> int \<Rightarrow> FamilyGroup option" where
  "getFamilyGroup s i = Map_get (familyGroups s) i"

definition getFamilyGroupByInviteCode :: "MemStorage \<Rightarrow> string option \<Rightarrow> FamilyGroup option" where
  \<comment> \<open>the argument is \<open>undefined\<close> (\<open>None\<close>) when the request body has no \<open>inviteCode\<close>\<close>
  "getFamilyGroupByInviteCode s inviteCode =
     array_find (\<lambda>grp. Some (g_inviteCode grp) = inviteCode) (Map_values (familyGroups s))"

definition createFamilyGroup :: "MemStorage \<Rightarrow> int \<Rightarrow> string \<Rightarrow> string \<Rightarrow> MemStorage \<times> FamilyGroup" where
  "createFamilyGroup s now name inviteCode =
     (let i = currentFamilyGroupId s;
          familyGroup = \<lparr> g_id = i, g_name = name, g_inviteCode = inviteCode,
                          g_createdAt = Some now \<rparr>
      in (s\<lparr>currentFamilyGroupId := i + 1,
            familyGroups := Map_set (familyGroups s) i familyGroup\<rparr>, familyGroup))"

definition getFamilyMembers :: "MemStorage \<Rightarrow> int \<Rightarrow> User list" where
  "getFamilyMembers s familyGroupId =
     filter (\<lambda>user. u_familyGroupId user = Some familyGroupId) (Map_values (users s))"

definition newest_first_items :: "WishlistItem \<Rightarrow> WishlistItem \<Rightarrow> int" where
  "newest_first_items a b = getTime_or_0 (w_createdAt b) - getTime_or_0 (w_createdAt a)"

definition getWishlistItems :: "MemStorage \<Rightarrow> int \<Rightarrow> WishlistItem list" where
  "getWishlistItems s userId =
     array_sort newest_first_items
       (filter (\<lambda>item. w_userId item = userId) (Map_values (wishlistItems s)))"

definition getWishlistItem :: "MemStorage \<Rightarrow> int \<Rightarrow> WishlistItem option" where
  "getWishlistItem s i = Map_get (wishlistItems s) i"

definition createWishlistItem :: "MemStorage \<Rightarrow> int \<Rightarrow> int \<Rightarrow> InsertWishlistItem \<Rightarrow> MemStorage \<times> WishlistItem" where
  "createWishlistItem s now userId item =
     (let i = currentWishlistItemId s;
          wishlistItem = \<lparr> w_id = i, w_userId = userId, w_name = iw_name item,
            w_description = iw_description item, w_price = iw_price item,
            w_category = iw_category item, w_priority = iw_priority item,
            w_storeLink = iw_storeLink item, w_imageUrl = iw_imageUrl item,
            w_isReserved = Some False, w_reservedByUserId = None, w_createdAt = Some now \<rparr>
      in (s\<lparr>currentWishlistItemId := i + 1,
            wishlistItems := Map_set (wishlistItems s) i wishlistItem\<rparr>, wishlistItem))"

definition updateWishlistItem :: "MemStorage \<Rightarrow> int \<Rightarrow> PartialWishlistItem \<Rightarrow> MemStorage \<times> WishlistItem option" where
  "updateWishlistItem s i updates =
     (case Map_get (wishlistItems s) i of
        None \<Rightarrow> (s, None)
      | Some item \<Rightarrow>
          (let updatedItem = spread_item item updates
           in (s\<lparr>wishlistItems := Map_set (wishlistItems s) i updatedItem\<rparr>, Some updatedItem)))"

definition deleteWishlistItem :: "MemStorage \<Rightarrow> int \<Rightarrow> MemStorage \<times> bool" where
  "deleteWishlistItem s i =
     (s\<lparr>wishlistItems := Map_delete (wishlistItems s) i\<rparr>, Map_has (wishlistItems s) i)"

definition reserveWishlistItem :: "MemStorage \<Rightarrow> int \<Rightarrow> int \<Rightarrow> MemStorage \<times> WishlistItem option" where
  "reserveWishlistItem s i reservedByUserId =
     (case Map_get (wishlistItems s) i of
        None \<Rightarrow> (s, None)
      | Some item \<Rightarrow>
          (let updatedItem = item\<lparr>w_isReserved := Some True,
                                  w_reservedByUserId := Some reservedByUserId\<rparr>
           in (s\<lparr>wishlistItems := Map_set (wishlistItems s) i updatedItem\<rparr>, Some updatedItem)))"

definition unreserveWishlistItem :: "MemStorage \<Rightarrow> int \<Rightarrow> MemStorage \<times> WishlistItem option" where
  "unreserveWishlistItem s i =
     (case Map_get (wishlistItems s) i of
        None \<Rightarrow> (s, None)
      | Some item \<Rightarrow>
          (let updatedItem = item\<lparr>w_isReserved := Some False, w_reservedByUserId := None\<rparr>
           in (s\<lparr>wishlistItems := Map_set (wishlistItems s) i updatedItem\<rparr>, Some updatedItem)))"

definition createActivity ::
  "MemStorage \<Rightarrow> int \<Rightarrow> int \<Rightarrow> int \<Rightarrow> string \<Rightarrow> string option \<Rightarrow> int option \<Rightarrow> MemStorage \<times> Activity" where
  "createActivity s now userId familyGroupId action itemName targetUserId =
     (let i = currentActivityId s;
          activityRecord = \<lparr> a_id = i, a_userId = userId, a_familyGroupId = familyGroupId,
            a_action = action, a_itemName = itemName, a_targetUserId = targetUserId,
            a_createdAt = Some now \<rparr>
      in (s\<lparr>currentActivityId := i + 1,
            activities := Map_set (activities s) i activityRecord\<rparr>, activityRecord))"

definition newest_first_activities :: "Activity \<Rightarrow> Activity \<Rightarrow> int" where
  "newest_first_activities a b = getTime_or_0 (a_createdAt b) - getTime_or_0 (a_createdAt a)"

definition getFamilyActivities :: "MemStorage \<Rightarrow> int \<Rightarrow> nat option \<Rightarrow> Activity list" where
  \<comment> \<open>\<open>limit = 10\<close> when the argument is left out; \<open>slice(0, limit)\<close> keeps the first \<open>limit\<close>\<close>
  "getFamilyActivities s familyGroupId limit =
     take (case limit of None \<Rightarrow> 10 | Some n \<Rightarrow> n)
       (array_sort newest_first_activities
          (filter (\<lambda>activity. a_familyGroupId activity = familyGroupId)
             (Map_values (activities s))))"

definition createSecretNote :: "MemStorage \<Rightarrow> int \<Rightarrow> int \<Rightarrow> InsertSecretNote \<Rightarrow> MemStorage \<times> SecretNote" where
  "createSecretNote s now userId note =
     (let i = currentSecretNoteId s;
          secretNote = \<lparr> n_id = i, n_wishlistItemId = in_wishlistItemId note,
            n_userId = userId, n_note = in_note note, n_createdAt = Some now \<rparr>
      in (s\<lparr>currentSecretNoteId := i + 1,
            secretNotes := Map_set (secretNotes s) i secretNote\<rparr>, secretNote))"

definition MemStorage_getSecretNotes :: "MemStorage \<Rightarrow> int \<Rightarrow> int \<Rightarrow> SecretNote list" where
  "MemStorage_getSecretNotes s wishlistItemId userId =
     filter (\<lambda>note. n_wishlistItemId note = wishlistItemId \<and> n_userId note = userId)
       (Map_values (secretNotes s))"

section \<open>DatabaseStorage (server/storage.ts)\<close>

text \<open>
  The SQL-backed store runs the query builder over tables. A table is the list of its
  rows; \<open>select().from(t).where(eq(c, v))\<close> keeps the rows whose column \<open>c\<close> is \<open>v\<close>;
  \<open>update(t).set(vs).where(eq(c, v)).returning()\<close> rewrites those rows and returns them,
  and \<open>const [item] = ...; return item || undefined\<close> takes the first of them.
\<close>

definition DatabaseStorage_getSecretNotes :: "SecretNote list \<Rightarrow> int \<Rightarrow> int \<Rightarrow> SecretNote list" where
  "DatabaseStorage_getSecretNotes secretNotes_table wishlistItemId userId =
     filter (\<lambda>note. n_wishlistItemId note = wishlistItemId) secretNotes_table"

definition DatabaseStorage_reserveWishlistItem ::
  "WishlistItem list \<Rightarrow> int \<Rightarrow> int \<Rightarrow> WishlistItem list \<times> WishlistItem option" where
  "DatabaseStorage_reserveWishlistItem wishlistItems_table i reservedByUserId =
     (let set_row = (\<lambda>row. row\<lparr>w_isReserved := Some True,
                                 w_reservedByUserId := Some reservedByUserId\<rparr>)
      in (map (\<lambda>row. if w_id row = i then set_row row else row) wishlistItems_table,
          case filter (\<lambda>row. w_id row = i) wishlistItems_table of
            [] \<Rightarrow> None
          | row # _ \<Rightarrow> Some (set_row row)))"

section \<open>Route layer (server/routes.ts)\<close>

record SessionUser =
  s_id :: int
  s_name :: string
  s_email :: "string option"
  s_familyGroupId :: "int option"

text \<open>
  The server's state: the store the routes call (\<open>storage = new MemStorage()\<close>) and the
  session table \<open>sessions\<close>, a \<open>Map<string, SessionUser>\<close> whose order is never read.
\<close>

record App =
  storage :: MemStorage
  sessions :: "string \<Rightarrow> SessionUser option"

text \<open>
  A response is the HTTP status and the JSON body. The \<open>error\<close> member that a
  \<open>catch\<close> block adds beside \<open>message\<close> is left out.
\<close>

record EnrichedActivity =
  ea_activity :: Activity
  ea_user :: "(int \<times> string) option"
  ea_targetUser :: "(int \<times> string) option"

datatype json =
    Message string
  | ItemJson "WishlistItem option"
  | GroupJson FamilyGroup
  | NoteJson SecretNote
  | ActivitiesJson "EnrichedActivity list"
  | AuthJson SessionUser string
  | GroupMembersJson FamilyGroup "User list"
  | ItemsJson "WishlistItem list"
  | FamilyWishlistsJson "(User \<times> (WishlistItem \<times> bool) list) list"

record Response =
  status :: nat
  body :: json

definition respond :: "nat \<Rightarrow> json \<Rightarrow> Response" where
  "respond code b = \<lparr> status = code, body = b \<rparr>"

text \<open>
  \<open>sessionMiddleware\<close> followed by \<open>requireAuth\<close>: the handler runs with the session
  entry of the \<open>X-Session-Id\<close> header (\<open>None\<close> when the header is missing); a missing,
  empty or unknown session id is answered with 401. \<open>req.user\<close> is the very object
  stored in \<open>sessions\<close>, so an assignment to a field of \<open>req.user\<close> is an update of the
  entry under that session id.
\<close>

definition requireAuth ::
  "App \<Rightarrow> string option \<Rightarrow> (string \<Rightarrow> SessionUser \<Rightarrow> App \<times> Response) \<Rightarrow> App \<times> Response" where
  "requireAuth st header handler =
     (case header of
        None \<Rightarrow> (st, respond 401 (Message ''Authentication required''))
      | Some sessionId \<Rightarrow>
          if sessionId = [] then (st, respond 401 (Message ''Authentication required''))
          else (case sessions st sessionId of
                  None \<Rightarrow> (st, respond 401 (Message ''Authentication required''))
                | Some user \<Rightarrow> handler sessionId user))"

text \<open>
  \<open>POST /api/auth/register\<close>. \<open>userData\<close> is \<open>None\<close> when \<open>insertUserSchema.parse\<close>
  throws; \<open>sessionId\<close> is what \<open>Math.random().toString(36)\<close> returned.
  \<open>user.email || null\<close> turns the empty string into \<open>null\<close>.
\<close>

definition or_null :: "string option \<Rightarrow> string option" where
  "or_null x = (case x of None \<Rightarrow> None | Some e \<Rightarrow> if e = [] then None else Some e)"

definition post_auth_register :: "App \<Rightarrow> string \<Rightarrow> InsertUser option \<Rightarrow> App \<times> Response" where
  "post_auth_register st sessionId userData =
     (case userData of
        None \<Rightarrow> (st, respond 400 (Message ''Ugyldig data''))
      | Some d \<Rightarrow>
          if (case or_null (iu_email d) of
                None \<Rightarrow> False
              | Some e \<Rightarrow> getUserByEmail (storage st) e \<noteq> None)
          then (st, respond 400 (Message ''Bruker med denne e-postadressen finnes allerede''))
          else (let (s1, user) = createUser (storage st) d;
                    sessionUser = \<lparr> s_id = u_id user, s_name = u_name user,
                                    s_email = or_null (u_email user),
                                    s_familyGroupId = u_familyGroupId user \<rparr>
                in (\<lparr> storage = s1, sessions = (sessions st)(sessionId \<mapsto> sessionUser) \<rparr>,
                    respond 200 (AuthJson sessionUser sessionId))))"

text \<open>
  \<open>POST /api/family-groups\<close>. \<open>name\<close> is \<open>None\<close> when \<open>insertFamilyGroupSchema.parse\<close>
  throws; \<open>inviteCode\<close> is what \<open>generateInviteCode()\<close> returned, \<open>t1\<close> and \<open>t2\<close> are the
  clock readings of the two \<open>new Date()\<close> calls.
\<close>

definition post_family_groups ::
  "App \<Rightarrow> int \<Rightarrow> int \<Rightarrow> string \<Rightarrow> string option \<Rightarrow> string option \<Rightarrow> App \<times> Response" where
  "post_family_groups st t1 t2 inviteCode header name =
     requireAuth st header (\<lambda>sessionId user.
       case name of
         None \<Rightarrow> (st, respond 400 (Message ''Invalid data''))
       | Some groupName \<Rightarrow>
           (let (s1, grp) = createFamilyGroup (storage st) t1 groupName inviteCode;
                (s2, _) = updateUserFamilyGroup s1 (s_id user) (g_id grp);
                user' = user\<lparr>s_familyGroupId := Some (g_id grp)\<rparr>;
                (s3, _) = createActivity s2 t2 (s_id user) (g_id grp) ''created_group''
                            None None
            in (\<lparr> storage = s3, sessions = (sessions st)(sessionId \<mapsto> user') \<rparr>,
                respond 200 (GroupJson grp))))"

text \<open>
  \<open>POST /api/family-groups/join\<close>. \<open>inviteCode\<close> is the member of that name of the
  request body, \<open>None\<close> when the body has none.
\<close>

definition post_family_groups_join ::
  "App \<Rightarrow> int \<Rightarrow> string option \<Rightarrow> string option \<Rightarrow> App \<times> Response" where
  "post_family_groups_join st now header inviteCode =
     requireAuth st header (\<lambda>sessionId user.
       case getFamilyGroupByInviteCode (storage st) inviteCode of
         None \<Rightarrow> (st, respond 404 (Message ''Invalid invite code''))
       | Some grp \<Rightarrow>
           (let (s1, _) = updateUserFamilyGroup (storage st) (s_id user) (g_id grp);
                user' = user\<lparr>s_familyGroupId := Some (g_id grp)\<rparr>;
                (s2, _) = createActivity s1 now (s_id user) (g_id grp) ''joined_group''
                            None None
            in (\<lparr> storage = s2, sessions = (sessions st)(sessionId \<mapsto> user') \<rparr>,
                respond 200 (GroupJson grp))))"

text \<open>
  The group-scoped read routes \<open>GET /api/family-groups/current\<close> and
  \<open>GET /api/wishlists/family\<close>, and \<open>GET /api/wishlists/my\<close>. In the family
  listing every item is paired with its \<open>canEdit\<close> flag.
\<close>

definition get_family_groups_current :: "App \<Rightarrow> string option \<Rightarrow> App \<times> Response" where
  "get_family_groups_current st header =
     requireAuth st header (\<lambda>sessionId user.
       case s_familyGroupId user of
         None \<Rightarrow> (st, respond 404 (Message ''No family group''))
       | Some g \<Rightarrow>
           if g = 0 then (st, respond 404 (Message ''No family group''))
           else (case getFamilyGroup (storage st) g of
                   None \<Rightarrow> (st, respond 404 (Message ''Family group not found''))
                 | Some grp \<Rightarrow>
                     (st, respond 200
                            (GroupMembersJson grp (getFamilyMembers (storage st) (g_id grp))))))"

definition get_wishlists_my :: "App \<Rightarrow> string option \<Rightarrow> App \<times> Response" where
  "get_wishlists_my st header =
     requireAuth st header (\<lambda>sessionId user.
       (st, respond 200 (ItemsJson (getWishlistItems (storage st) (s_id user)))))"

definition get_wishlists_family :: "App \<Rightarrow> string option \<Rightarrow> App \<times> Response" where
  "get_wishlists_family st header =
     requireAuth st header (\<lambda>sessionId user.
       case s_familyGroupId user of
         None \<Rightarrow> (st, respond 404 (Message ''No family group''))
       | Some g \<Rightarrow>
           if g = 0 then (st, respond 404 (Message ''No family group''))
           else (st, respond 200 (FamilyWishlistsJson
                   (map (\<lambda>member.
                           (member,
                            map (\<lambda>item. (item, w_userId item = s_id user))
                              (getWishlistItems (storage st) (u_id member))))
                      (getFamilyMembers (storage st) g)))))"

text \<open>
  \<open>POST /api/wishlist-items\<close>. \<open>itemData\<close> is \<open>None\<close> when
  \<open>insertWishlistItemSchema.parse\<close> throws.
\<close>

definition post_wishlist_items ::
  "App \<Rightarrow> int \<Rightarrow> int \<Rightarrow> string option \<Rightarrow> InsertWishlistItem option \<Rightarrow> App \<times> Response" where
  "post_wishlist_items st t1 t2 header itemData =
     requireAuth st header (\<lambda>sessionId user.
       case itemData of
         None \<Rightarrow> (st, respond 400 (Message ''Invalid data''))
       | Some d \<Rightarrow>
           (let (s1, item) = createWishlistItem (storage st) t1 (s_id user) d;
                s2 = (case s_familyGroupId user of
                        None \<Rightarrow> s1
                      | Some g \<Rightarrow>
                          if g = 0 then s1
                          else fst (createActivity s1 t2 (s_id user) g ''added_item''
                                      (Some (w_name item)) None))
            in (st\<lparr>storage := s2\<rparr>, respond 200 (ItemJson (Some item)))))"

text \<open>
  The routes under \<open>/api/wishlist-items/:id\<close> take \<open>parseInt(req.params.id)\<close>: the
  integer, or \<open>None\<close> for \<open>NaN\<close>, which is the key of no entry.
  \<open>PUT\<close> hands the request body to the store as it is.
\<close>

definition put_wishlist_item ::
  "App \<Rightarrow> string option \<Rightarrow> int option \<Rightarrow> PartialWishlistItem \<Rightarrow> App \<times> Response" where
  "put_wishlist_item st header param updates =
     requireAuth st header (\<lambda>sessionId user.
       case param of
         None \<Rightarrow> (st, respond 404 (Message ''Item not found''))
       | Some i \<Rightarrow>
           (case getWishlistItem (storage st) i of
              None \<Rightarrow> (st, respond 404 (Message ''Item not found''))
            | Some existingItem \<Rightarrow>
                if w_userId existingItem \<noteq> s_id user
                then (st, respond 403 (Message ''Not authorized''))
                else (let (s1, item) = updateWishlistItem (storage st) i updates
                      in (st\<lparr>storage := s1\<rparr>, respond 200 (ItemJson item)))))"

definition delete_wishlist_item ::
  "App \<Rightarrow> string option \<Rightarrow> int option \<Rightarrow> App \<times> Response" where
  "delete_wishlist_item st header param =
     requireAuth st header (\<lambda>sessionId user.
       case param of
         None \<Rightarrow> (st, respond 404 (Message ''Item not found''))
       | Some i \<Rightarrow>
           (case getWishlistItem (storage st) i of
              None \<Rightarrow> (st, respond 404 (Message ''Item not found''))
            | Some existingItem \<Rightarrow>
                if w_userId existingItem \<noteq> s_id user
                then (st, respond 403 (Message ''Not authorized''))
                else (let (s1, _) = deleteWishlistItem (storage st) i
                      in (st\<lparr>storage := s1\<rparr>, respond 200 (Message ''Item deleted'')))))"

definition post_reserve ::
  "App \<Rightarrow> int \<Rightarrow> string option \<Rightarrow> int option \<Rightarrow> App \<times> Response" where
  "post_reserve st now header param =
     requireAuth st header (\<lambda>sessionId user.
       case param of
         None \<Rightarrow> (st, respond 404 (Message ''Item not found''))
       | Some i \<Rightarrow>
           (case getWishlistItem (storage st) i of
              None \<Rightarrow> (st, respond 404 (Message ''Item not found''))
            | Some existingItem \<Rightarrow>
                if w_userId existingItem = s_id user
                then (st, respond 400 (Message ''Cannot reserve your own item''))
                else if truthy_bool (w_isReserved existingItem)
                then (st, respond 400 (Message ''Item already reserved''))
                else (let (s1, item) = reserveWishlistItem (storage st) i (s_id user);
                          s2 = (case s_familyGroupId user of
                                  None \<Rightarrow> s1
                                | Some g \<Rightarrow>
                                    if g = 0 then s1
                                    else fst (createActivity s1 now (s_id user) g
                                                ''reserved_item'' (map_option w_name item)
                                                (Some (w_userId existingItem))))
                      in (st\<lparr>storage := s2\<rparr>, respond 200 (ItemJson item)))))"

definition post_unreserve ::
  "App \<Rightarrow> string option \<Rightarrow> int option \<Rightarrow> App \<times> Response" where
  "post_unreserve st header param =
     requireAuth st header (\<lambda>sessionId user.
       case param of
         None \<Rightarrow> (st, respond 404 (Message ''Item not found''))
       | Some i \<Rightarrow>
           (case getWishlistItem (storage st) i of
              None \<Rightarrow> (st, respond 404 (Message ''Item not found''))
            | Some existingItem \<Rightarrow>
                if \<not> truthy_bool (w_isReserved existingItem)
                   \<or> w_reservedByUserId existingItem \<noteq> Some (s_id user)
                then (st, respond 400 (Message ''Cannot unreserve this item''))
                else (let (s1, item) = unreserveWishlistItem (storage st) i
                      in (st\<lparr>storage := s1\<rparr>, respond 200 (ItemJson item)))))"

text \<open>\<open>GET /api/activities\<close>, with the enrichment of each activity by the two user lookups.\<close>

definition enrich :: "MemStorage \<Rightarrow> Activity \<Rightarrow> EnrichedActivity" where
  "enrich s activity =
     (let user = getUser s (a_userId activity);
          targetUser = (case a_targetUserId activity of
                          None \<Rightarrow> None
                        | Some t \<Rightarrow> if t = 0 then None else getUser s t)
      in \<lparr> ea_activity = activity,
           ea_user = map_option (\<lambda>u. (u_id u, u_name u)) user,
           ea_targetUser = map_option (\<lambda>u. (u_id u, u_name u)) targetUser \<rparr>)"

definition get_activities :: "App \<Rightarrow> string option \<Rightarrow> App \<times> Response" where
  "get_activities st header =
     requireAuth st header (\<lambda>sessionId user.
       case s_familyGroupId user of
         None \<Rightarrow> (st, respond 200 (ActivitiesJson []))
       | Some g \<Rightarrow>
           if g = 0 then (st, respond 200 (ActivitiesJson []))
           else (let acts = getFamilyActivities (storage st) g None
                 in (st, respond 200 (ActivitiesJson (map (enrich (storage st)) acts)))))"

text \<open>
  \<open>POST /api/secret-notes\<close>. \<open>noteData\<close> is \<open>None\<close> when
  \<open>insertSecretNoteSchema.parse\<close> throws.
\<close>

definition post_secret_notes ::
  "App \<Rightarrow> int \<Rightarrow> string option \<Rightarrow> InsertSecretNote option \<Rightarrow> App \<times> Response" where
  "post_secret_notes st now header noteData =
     requireAuth st header (\<lambda>sessionId user.
       case noteData of
         None \<Rightarrow> (st, respond 400 (Message ''Invalid data''))
       | Some d \<Rightarrow>
           (case getWishlistItem (storage st) (in_wishlistItemId d) of
              None \<Rightarrow> (st, respond 404 (Message ''Item not found''))
            | Some item \<Rightarrow>
                if w_userId item = s_id user
                then (st, respond 400 (Message ''Cannot add notes to your own items''))
                else (let (s1, note) = createSecretNote (storage st) now (s_id user) d
                      in (st\<lparr>storage := s1\<rparr>, respond 200 (NoteJson note)))))"

section \<open>The invariants of the data model\<close>

text \<open>A wishlist item is reserved exactly when it names who reserved it.\<close>

definition reservation_consistent :: "WishlistItem \<Rightarrow> bool" where
  "reservation_consistent item = (truthy_bool (w_isReserved item) = (w_reservedByUserId item \<noteq> None))"

definition reservation_invariant :: "MemStorage \<Rightarrow> bool" where
  "reservation_invariant s = list_all reservation_consistent (Map_values (wishlistItems s))"

text \<open>No two family groups of the store share an invite code.\<close>

definition invite_codes_unique :: "MemStorage \<Rightarrow> bool" where
  "invite_codes_unique s = distinct (map g_inviteCode (Map_values (familyGroups s)))"

section \<open>A family, built through the routes\<close>

text \<open>
  Anna, Ben and Carl register; Anna creates the group Smith, whose invite code comes
  out as K4J9QZ, and Ben joins it; Anna adds a bike to her wishlist. Carl stays
  outside every group.
\<close>

definition empty_app :: App where
  "empty_app = \<lparr> storage = new_MemStorage, sessions = (\<lambda>sessionId. None) \<rparr>"

definition registered_app :: App where
  "registered_app =
     (let st1 = fst (post_auth_register empty_app ''0.sa''
                  (Some \<lparr> iu_name = ''Anna'', iu_email = Some ''anna@example.org'',
                          iu_password = ''a'' \<rparr>));
          st2 = fst (post_auth_register st1 ''0.sb''
                  (Some \<lparr> iu_name = ''Ben'', iu_email = Some ''ben@example.org'',
                          iu_password = ''b'' \<rparr>))
      in fst (post_auth_register st2 ''0.sc''
                  (Some \<lparr> iu_name = ''Carl'', iu_email = None, iu_password = ''c'' \<rparr>)))"

definition bike :: InsertWishlistItem where
  "bike = \<lparr> iw_name = ''Bike'', iw_description = None, iw_price = Some 2000,
            iw_category = None, iw_priority = Some ''medium'', iw_storeLink = None,
            iw_imageUrl = None \<rparr>"

definition family_app :: App where
  "family_app =
     (let st1 = fst (post_family_groups registered_app 10 11 ''K4J9QZ'' (Some ''0.sa'')
                       (Some ''Smith''));
          st2 = fst (post_family_groups_join st1 20 (Some ''0.sb'') (Some ''K4J9QZ''))
      in fst (post_wishlist_items st2 30 31 (Some ''0.sa'') (Some bike)))"

text \<open>Ben reserves the bike.\<close>

definition reserved_app :: App where
  "reserved_app = fst (post_reserve family_app 40 (Some ''0.sb'') (Some 1))"

text \<open>Ben leaves a secret note on the bike.\<close>

definition noted_app :: App where
  "noted_app = fst (post_secret_notes family_app 50 (Some ''0.sb'')
                      (Some \<lparr> in_wishlistItemId = 1, in_note = ''blue one'' \<rparr>))"

text \<open>Ben creates a group of his own, and the generator returns K4J9QZ once more.\<close>

definition second_group_app :: App where
  "second_group_app =
     fst (post_family_groups family_app 60 61 ''K4J9QZ'' (Some ''0.sb'') (Some ''Jones''))"

section \<open>Lemmas about the primitives\<close>

lemma Map_get_Map_set:
  "Map_get (Map_set m k v) k' = (if k' = k then Some v else Map_get m k')"
  by (induction m) auto

lemma Map_get_Map_delete:
  "Map_get (Map_delete m k) k' = (if k' = k then None else Map_get m k')"
  by (induction m) (auto simp: Map_delete_def)

lemma Map_set_fresh: "Map_get m k = None \<Longrightarrow> Map_set m k v = m @ [(k, v)]"
  by (induction m) (auto split: if_splits)

lemma array_find_None: "array_find p xs = None \<longleftrightarrow> (\<forall>x\<in>set xs. \<not> p x)"
  by (induction xs) auto

lemma mset_insort_cmp: "mset (insort_cmp cmp x ys) = add_mset x (mset ys)"
  by (induction ys) auto

lemma mset_array_sort: "mset (array_sort cmp xs) = mset xs"
  by (induction xs) (auto simp: array_sort_def mset_insort_cmp)

lemma set_insort_cmp: "set (insort_cmp cmp x ys) = insert x (set ys)"
  by (induction ys) auto

lemma set_array_sort: "set (array_sort cmp xs) = set xs"
  by (induction xs) (auto simp: array_sort_def set_insort_cmp)

lemma length_array_sort: "length (array_sort cmp xs) = length xs"
  by (metis mset_array_sort size_mset)

lemma sorted_insort_newest_first:
  fixes key :: "'a \<Rightarrow> int"
  assumes "sorted_wrt (\<lambda>a b. key b \<le> key a) ys"
  shows "sorted_wrt (\<lambda>a b. key b \<le> key a) (insort_cmp (\<lambda>a b. key b - key a) x ys)"
  using assms
proof (induction ys)
  case Nil
  then show ?case by simp
next
  case (Cons y ys)
  show ?case
  proof (cases "key y - key x \<le> 0")
    case True
    then have "\<forall>z\<in>set ys. key z \<le> key x"
      using Cons.prems by fastforce
    with True Cons.prems show ?thesis by simp
  next
    case False
    with Cons show ?thesis by (auto simp: set_insort_cmp)
  qed
qed

lemma sorted_array_sort_newest_first:
  fixes key :: "'a \<Rightarrow> int"
  shows "sorted_wrt (\<lambda>a b. key b \<le> key a) (array_sort (\<lambda>a b. key b - key a) xs)"
  by (induction xs) (simp_all add: array_sort_def sorted_insort_newest_first)

lemma sorted_wrt_take_drop:
  assumes "sorted_wrt P xs" and "a \<in> set (take n xs)" and "b \<in> set (drop n xs)"
  shows "P a b"
proof -
  have "sorted_wrt P (take n xs @ drop n xs)" using assms(1) by simp
  then show ?thesis using assms(2,3) unfolding sorted_wrt_append by blast
qed

section \<open>The routes behind an authenticated session\<close>

lemma requireAuth_session:
  assumes "sessionId \<noteq> []" and "sessions st sessionId = Some user"
  shows "requireAuth st (Some sessionId) handler = handler sessionId user"
  using assms by (simp add: requireAuth_def)

lemma status_respond [simp]: "status (respond code b) = code"
  by (simp add: respond_def)

lemma body_respond [simp]: "body (respond code b) = b"
  by (simp add: respond_def)

lemma respond_eq [simp]: "respond c b = respond c' b' \<longleftrightarrow> c = c' \<and> b = b'"
  by (simp add: respond_def)

lemma post_reserve_session:
  assumes "sessionId \<noteq> []" and "sessions st sessionId = Some user"
  shows "post_reserve st now (Some sessionId) (Some i) =
     (case getWishlistItem (storage st) i of
        None \<Rightarrow> (st, respond 404 (Message ''Item not found''))
      | Some existingItem \<Rightarrow>
          if w_userId existingItem = s_id user
          then (st, respond 400 (Message ''Cannot reserve your own item''))
          else if truthy_bool (w_isReserved existingItem)
          then (st, respond 400 (Message ''Item already reserved''))
          else (st\<lparr>storage :=
                   (case s_familyGroupId user of
                      None \<Rightarrow> fst (reserveWishlistItem (storage st) i (s_id user))
                    | Some g \<Rightarrow>
                        if g = 0 then fst (reserveWishlistItem (storage st) i (s_id user))
                        else fst (createActivity
                                    (fst (reserveWishlistItem (storage st) i (s_id user)))
                                    now (s_id user) g ''reserved_item''
                                    (map_option w_name
                                       (snd (reserveWishlistItem (storage st) i (s_id user))))
                                    (Some (w_userId existingItem))))\<rparr>,
                respond 200 (ItemJson (snd (reserveWishlistItem (storage st) i (s_id user))))))"
  unfolding post_reserve_def requireAuth_session [OF assms]
  by (simp add: Let_def split_beta split: option.splits)

lemma post_reserve_NaN:
  assumes "sessionId \<noteq> []" and "sessions st sessionId = Some user"
  shows "post_reserve st now (Some sessionId) None = (st, respond 404 (Message ''Item not found''))"
  unfolding post_reserve_def requireAuth_session [OF assms] by simp

lemma reserveWishlistItem_Some:
  assumes "getWishlistItem s i = Some item"
  shows "reserveWishlistItem s i u =
           (s\<lparr>wishlistItems := Map_set (wishlistItems s) i
                 (item\<lparr>w_isReserved := Some True, w_reservedByUserId := Some u\<rparr>)\<rparr>,
            Some (item\<lparr>w_isReserved := Some True, w_reservedByUserId := Some u\<rparr>))"
  using assms by (simp add: reserveWishlistItem_def getWishlistItem_def Let_def)

lemma wishlistItems_createActivity [simp]:
  "wishlistItems (fst (createActivity s now u g action itemName target)) = wishlistItems s"
  by (simp add: createActivity_def Let_def)

lemma activities_createActivity:
  "activities (fst (createActivity s now u g action itemName target)) =
     Map_set (activities s) (currentActivityId s)
       \<lparr> a_id = currentActivityId s, a_userId = u, a_familyGroupId = g, a_action = action,
         a_itemName = itemName, a_targetUserId = target, a_createdAt = Some now \<rparr>"
  by (simp add: createActivity_def Let_def)

text \<open>What a successful reserve leaves behind.\<close>

lemma post_reserve_success:
  assumes auth: "sessionId \<noteq> []" "sessions st sessionId = Some user"
      and item: "getWishlistItem (storage st) i = Some item"
      and ok: "w_userId item \<noteq> s_id user" "\<not> truthy_bool (w_isReserved item)"
  shows "snd (post_reserve st now (Some sessionId) (Some i)) =
           respond 200 (ItemJson (Some (item\<lparr>w_isReserved := Some True,
                                              w_reservedByUserId := Some (s_id user)\<rparr>)))"
    and "wishlistItems (storage (fst (post_reserve st now (Some sessionId) (Some i)))) =
           Map_set (wishlistItems (storage st)) i
             (item\<lparr>w_isReserved := Some True, w_reservedByUserId := Some (s_id user)\<rparr>)"
    and "sessions (fst (post_reserve st now (Some sessionId) (Some i))) = sessions st"
    and "activities (storage (fst (post_reserve st now (Some sessionId) (Some i)))) =
           (case s_familyGroupId user of
              None \<Rightarrow> activities (storage st)
            | Some g \<Rightarrow>
                if g = 0 then activities (storage st)
                else Map_set (activities (storage st)) (currentActivityId (storage st))
                       \<lparr> a_id = currentActivityId (storage st), a_userId = s_id user,
                         a_familyGroupId = g, a_action = ''reserved_item'',
                         a_itemName = Some (w_name item),
                         a_targetUserId = Some (w_userId item), a_createdAt = Some now \<rparr>)"
  using item ok
  by (simp_all add: post_reserve_session [OF auth] reserveWishlistItem_Some [OF item]
        activities_createActivity split: option.splits)

section \<open>The family of the example, evaluated\<close>

lemmas route_defs = post_auth_register_def post_family_groups_def post_family_groups_join_def
  post_wishlist_items_def put_wishlist_item_def delete_wishlist_item_def post_reserve_def
  post_unreserve_def get_activities_def post_secret_notes_def requireAuth_def respond_def or_null_def

lemmas store_defs = getUser_def getUserByEmail_def createUser_def updateUserFamilyGroup_def
  getFamilyGroupByInviteCode_def createFamilyGroup_def getWishlistItem_def createWishlistItem_def
  updateWishlistItem_def deleteWishlistItem_def reserveWishlistItem_def unreserveWishlistItem_def
  createActivity_def createSecretNote_def Map_values_def Map_delete_def Map_has_def new_MemStorage_def

lemma storage_family_app:
  "storage family_app =
     \<lparr> users =
         [(1, \<lparr>u_id = 1, u_name = ''Anna'', u_email = Some ''anna@example.org'',
                u_password = ''a'', u_familyGroupId = Some 1\<rparr>),
          (2, \<lparr>u_id = 2, u_name = ''Ben'', u_email = Some ''ben@example.org'',
                u_password = ''b'', u_familyGroupId = Some 1\<rparr>),
          (3, \<lparr>u_id = 3, u_name = ''Carl'', u_email = None, u_password = ''c'',
                u_familyGroupId = None\<rparr>)],
       familyGroups =
         [(1, \<lparr>g_id = 1, g_name = ''Smith'', g_inviteCode = ''K4J9QZ'',
                g_createdAt = Some 10\<rparr>)],
       wishlistItems =
         [(1, \<lparr>w_id = 1, w_userId = 1, w_name = ''Bike'', w_description = None,
                w_price = Some 2000, w_category = None, w_priority = Some ''medium'',
                w_storeLink = None, w_imageUrl = None, w_isReserved = Some False,
                w_reservedByUserId = None, w_createdAt = Some 30\<rparr>)],
       activities =
         [(1, \<lparr>a_id = 1, a_userId = 1, a_familyGroupId = 1, a_action = ''created_group'',
                a_itemName = None, a_targetUserId = None, a_createdAt = Some 11\<rparr>),
          (2, \<lparr>a_id = 2, a_userId = 2, a_familyGroupId = 1, a_action = ''joined_group'',
                a_itemName = None, a_targetUserId = None, a_createdAt = Some 20\<rparr>),
          (3, \<lparr>a_id = 3, a_userId = 1, a_familyGroupId = 1, a_action = ''added_item'',
                a_itemName = Some ''Bike'', a_targetUserId = None, a_createdAt = Some 31\<rparr>)],
       secretNotes = [], currentUserId = 4, currentFamilyGroupId = 2,
       currentWishlistItemId = 2, currentActivityId = 4, currentSecretNoteId = 1 \<rparr>"
  by (simp add: family_app_def registered_app_def empty_app_def bike_def route_defs store_defs Let_def)

lemma sessions_family_app:
  "sessions family_app ''0.sa'' =
     Some \<lparr>s_id = 1, s_name = ''Anna'', s_email = Some ''anna@example.org'',
            s_familyGroupId = Some 1\<rparr>"
  "sessions family_app ''0.sb'' =
     Some \<lparr>s_id = 2, s_name = ''Ben'', s_email = Some ''ben@example.org'',
            s_familyGroupId = Some 1\<rparr>"
  "sessions family_app ''0.sc'' =
     Some \<lparr>s_id = 3, s_name = ''Carl'', s_email = None, s_familyGroupId = None\<rparr>"
  by (simp_all add: family_app_def registered_app_def empty_app_def bike_def route_defs store_defs Let_def)

lemma sessions_reserved_app: "sessions reserved_app = sessions family_app"
  by (simp add: reserved_app_def post_reserve_def requireAuth_def sessions_family_app
      storage_family_app getWishlistItem_def truthy_bool_def Let_def split_beta)

lemma storage_reserved_app:
  "storage reserved_app =
     \<lparr> users =
         [(1, \<lparr>u_id = 1, u_name = ''Anna'', u_email = Some ''anna@example.org'',
                u_password = ''a'', u_familyGroupId = Some 1\<rparr>),
          (2, \<lparr>u_id = 2, u_name = ''Ben'', u_email = Some ''ben@example.org'',
                u_password = ''b'', u_familyGroupId = Some 1\<rparr>),
          (3, \<lparr>u_id = 3, u_name = ''Carl'', u_email = None, u_password = ''c'',
                u_familyGroupId = None\<rparr>)],
       familyGroups =
         [(1, \<lparr>g_id = 1, g_name = ''Smith'', g_inviteCode = ''K4J9QZ'',
                g_createdAt = Some 10\<rparr>)],
       wishlistItems =
         [(1, \<lparr>w_id = 1, w_userId = 1, w_name = ''Bike'', w_description = None,
                w_price = Some 2000, w_category = None, w_priority = Some ''medium'',
                w_storeLink = None, w_imageUrl = None, w_isReserved = Some True,
                w_reservedByUserId = Some 2, w_createdAt = Some 30\<rparr>)],
       activities =
         [(1, \<lparr>a_id = 1, a_userId = 1, a_familyGroupId = 1, a_action = ''created_group'',
                a_itemName = None, a_targetUserId = None, a_createdAt = Some 11\<rparr>),
          (2, \<lparr>a_id = 2, a_userId = 2, a_familyGroupId = 1, a_action = ''joined_group'',
                a_itemName = None, a_targetUserId = None, a_createdAt = Some 20\<rparr>),
          (3, \<lparr>a_id = 3, a_userId = 1, a_familyGroupId = 1, a_action = ''added_item'',
                a_itemName = Some ''Bike'', a_targetUserId = None, a_createdAt = Some 31\<rparr>),
          (4, \<lparr>a_id = 4, a_userId = 2, a_familyGroupId = 1, a_action = ''reserved_item'',
                a_itemName = Some ''Bike'', a_targetUserId = Some 1, a_createdAt = Some 40\<rparr>)],
       secretNotes = [], currentUserId = 4, currentFamilyGroupId = 2,
       currentWishlistItemId = 2, currentActivityId = 5, currentSecretNoteId = 1 \<rparr>"
  by (simp add: reserved_app_def post_reserve_def requireAuth_def sessions_family_app
      storage_family_app store_defs truthy_bool_def Let_def split_beta)

section \<open>The routes that keep the reservation invariant\<close>

lemma list_all_Map_set:
  "list_all P (Map_values m) \<Longrightarrow> P v \<Longrightarrow> list_all P (Map_values (Map_set m k v))"
  by (induction m) (auto simp: Map_values_def)

lemma list_all_Map_delete:
  "list_all P (Map_values m) \<Longrightarrow> list_all P (Map_values (Map_delete m k))"
  by (induction m) (auto simp: Map_values_def Map_delete_def)

lemma reservation_invariant_store:
  assumes "reservation_invariant s"
  shows "reservation_invariant (fst (createWishlistItem s now u d))"
    and "reservation_invariant (fst (deleteWishlistItem s i))"
    and "reservation_invariant (fst (reserveWishlistItem s i u))"
    and "reservation_invariant (fst (unreserveWishlistItem s i))"
    and "reservation_invariant (fst (createActivity s now u g action itemName target))"
  using assms
  by (simp_all add: reservation_invariant_def createWishlistItem_def deleteWishlistItem_def
      reserveWishlistItem_def unreserveWishlistItem_def createActivity_def Let_def
      list_all_Map_set list_all_Map_delete reservation_consistent_def truthy_bool_def
      split: option.splits)

lemma reservation_invariant_routes:
  assumes "reservation_invariant (storage st)"
  shows "reservation_invariant (storage (fst (post_wishlist_items st t1 t2 header itemData)))"
    and "reservation_invariant (storage (fst (delete_wishlist_item st header param)))"
    and "reservation_invariant (storage (fst (post_reserve st now header param)))"
    and "reservation_invariant (storage (fst (post_unreserve st header param)))"
  using assms
  by (simp_all add: post_wishlist_items_def delete_wishlist_item_def post_reserve_def
      post_unreserve_def requireAuth_def reservation_invariant_store split_beta Let_def
      split: option.splits)

section \<open>The reserve route\<close>

text \<open>
  C1. For an authenticated requester, \<open>POST /api/wishlist-items/:id/reserve\<close>
  answers 200 exactly when the item exists, the requester is not its owner and the item
  is not reserved. On success the stored item has \<open>isReserved = true\<close> and
  \<open>reservedByUserId\<close> the requester, and no other item changes. The owner is refused
  with 400 \<open>Cannot reserve your own item\<close>; anyone else asking for a reserved item is
  refused with 400 \<open>Item already reserved\<close>; both refusals leave the whole state, the
  activity log included, as it was. A second reserve right after a successful one, by
  the same or by another session, is refused and changes nothing. The route tests
  ownership before the reservation, so the owner of a reserved item gets the
  self-reservation message.
\<close>

theorem reserve_route_state_machine:
  assumes "sessionId \<noteq> []" and "sessions st sessionId = Some user"
  shows "(status (snd (post_reserve st now (Some sessionId) param)) = 200) =
           (\<exists>i item. param = Some i \<and> getWishlistItem (storage st) i = Some item
               \<and> w_userId item \<noteq> s_id user \<and> \<not> truthy_bool (w_isReserved item))
       \<and> (\<forall>i item. param = Some i \<and> getWishlistItem (storage st) i = Some item \<longrightarrow>
            (if w_userId item = s_id user
             then post_reserve st now (Some sessionId) param =
                    (st, respond 400 (Message ''Cannot reserve your own item''))
             else if truthy_bool (w_isReserved item)
             then post_reserve st now (Some sessionId) param =
                    (st, respond 400 (Message ''Item already reserved''))
             else snd (post_reserve st now (Some sessionId) param) =
                    respond 200 (ItemJson (Some (item\<lparr>w_isReserved := Some True,
                                                 w_reservedByUserId := Some (s_id user)\<rparr>)))
                \<and> (\<forall>j. getWishlistItem (storage (fst (post_reserve st now (Some sessionId) param))) j =
                         (if j = i then Some (item\<lparr>w_isReserved := Some True,
                                                 w_reservedByUserId := Some (s_id user)\<rparr>)
                          else getWishlistItem (storage st) j))
                \<and> (\<forall>sessionId2 user2 now2.
                      sessionId2 \<noteq> [] \<and> sessions st sessionId2 = Some user2 \<longrightarrow>
                      post_reserve (fst (post_reserve st now (Some sessionId) param)) now2
                          (Some sessionId2) param =
                        (fst (post_reserve st now (Some sessionId) param),
                         respond 400 (Message (if w_userId item = s_id user2
                                               then ''Cannot reserve your own item''
                                               else ''Item already reserved''))))))"
proof (intro conjI allI impI)
  show "(status (snd (post_reserve st now (Some sessionId) param)) = 200) =
           (\<exists>i item. param = Some i \<and> getWishlistItem (storage st) i = Some item
               \<and> w_userId item \<noteq> s_id user \<and> \<not> truthy_bool (w_isReserved item))"
  proof (cases param)
    case None
    then show ?thesis by (simp add: post_reserve_NaN [OF assms])
  next
    case (Some i)
    then show ?thesis
      by (simp add: post_reserve_session [OF assms] split: option.splits)
  qed
next
  fix i item
  assume h: "param = Some i \<and> getWishlistItem (storage st) i = Some item"
  then have p: "param = Some i" and item: "getWishlistItem (storage st) i = Some item"
    by simp_all
  let ?st' = "fst (post_reserve st now (Some sessionId) (Some i))"
  let ?item' = "item\<lparr>w_isReserved := Some True, w_reservedByUserId := Some (s_id user)\<rparr>"
  show "if w_userId item = s_id user
        then post_reserve st now (Some sessionId) param =
               (st, respond 400 (Message ''Cannot reserve your own item''))
        else if truthy_bool (w_isReserved item)
        then post_reserve st now (Some sessionId) param =
               (st, respond 400 (Message ''Item already reserved''))
        else snd (post_reserve st now (Some sessionId) param) =
               respond 200 (ItemJson (Some ?item'))
           \<and> (\<forall>j. getWishlistItem (storage (fst (post_reserve st now (Some sessionId) param))) j =
                    (if j = i then Some ?item' else getWishlistItem (storage st) j))
           \<and> (\<forall>sessionId2 user2 now2.
                 sessionId2 \<noteq> [] \<and> sessions st sessionId2 = Some user2 \<longrightarrow>
                 post_reserve (fst (post_reserve st now (Some sessionId) param)) now2
                     (Some sessionId2) param =
                   (fst (post_reserve st now (Some sessionId) param),
                    respond 400 (Message (if w_userId item = s_id user2
                                          then ''Cannot reserve your own item''
                                          else ''Item already reserved''))))"
  proof (cases "w_userId item = s_id user")
    case True
    then show ?thesis
      unfolding p using item by (simp add: post_reserve_session [OF assms])
  next
    case notowner: False
    show ?thesis
    proof (cases "truthy_bool (w_isReserved item)")
      case True
      with notowner show ?thesis
        unfolding p using item by (simp add: post_reserve_session [OF assms])
    next
      case False
      note s = post_reserve_success [OF assms item notowner False, of now]
      have get': "getWishlistItem (storage ?st') j =
                    (if j = i then Some ?item' else getWishlistItem (storage st) j)" for j
        by (simp add: getWishlistItem_def s(2) Map_get_Map_set)
      have again: "post_reserve ?st' now2 (Some sessionId2) (Some i) =
                     (?st', respond 400 (Message (if w_userId item = s_id user2
                                                  then ''Cannot reserve your own item''
                                                  else ''Item already reserved'')))"
        if "sessionId2 \<noteq> [] \<and> sessions st sessionId2 = Some user2" for sessionId2 user2 now2
      proof -
        from that have a2: "sessionId2 \<noteq> []" "sessions ?st' sessionId2 = Some user2"
          by (simp_all add: s(3))
        show ?thesis
          by (simp add: post_reserve_session [OF a2] get' truthy_bool_def)
      qed
      from notowner False s(1) get' again show ?thesis
        unfolding p by simp
    qed
  qed
qed

text \<open>
  Ben reserves Anna's bike; the second reserve is refused for Ben, for Carl and
  for Anna.
\<close>

theorem reserve_route_state_machine_witness:
  "status (snd (post_reserve family_app 40 (Some ''0.sb'') (Some 1))) = 200
   \<and> map_option w_reservedByUserId (getWishlistItem (storage reserved_app) 1) = Some (Some 2)
   \<and> map_option w_isReserved (getWishlistItem (storage reserved_app) 1) = Some (Some True)
   \<and> post_reserve reserved_app 41 (Some ''0.sb'') (Some 1) =
        (reserved_app, respond 400 (Message ''Item already reserved''))
   \<and> post_reserve reserved_app 41 (Some ''0.sc'') (Some 1) =
        (reserved_app, respond 400 (Message ''Item already reserved''))
   \<and> post_reserve reserved_app 41 (Some ''0.sa'') (Some 1) =
        (reserved_app, respond 400 (Message ''Cannot reserve your own item''))"
proof -
  let ?bike = "\<lparr>w_id = 1, w_userId = 1, w_name = ''Bike'', w_description = None,
                w_price = Some 2000, w_category = None, w_priority = Some ''medium'',
                w_storeLink = None, w_imageUrl = None, w_isReserved = Some False,
                w_reservedByUserId = None, w_createdAt = Some 30\<rparr>"
  have ne: "''0.sb'' \<noteq> []" "''0.sc'' \<noteq> []" "''0.sa'' \<noteq> []" by simp_all
  have item: "getWishlistItem (storage family_app) 1 = Some ?bike"
    by (simp add: getWishlistItem_def storage_family_app)
  note t = reserve_route_state_machine [OF ne(1) sessions_family_app(2), of 40 "Some 1"]
  have ok: "status (snd (post_reserve family_app 40 (Some ''0.sb'') (Some 1))) = 200"
    unfolding t [THEN conjunct1] using item by (simp add: truthy_bool_def)
  note c = t [THEN conjunct2, THEN spec, THEN spec, THEN mp, OF conjI [OF refl item]]
  have c': "snd (post_reserve family_app 40 (Some ''0.sb'') (Some 1)) =
               respond 200 (ItemJson (Some (?bike\<lparr>w_isReserved := Some True,
                                                  w_reservedByUserId := Some 2\<rparr>)))
          \<and> (\<forall>j. getWishlistItem (storage reserved_app) j =
                    (if j = 1 then Some (?bike\<lparr>w_isReserved := Some True,
                                                 w_reservedByUserId := Some 2\<rparr>)
                     else getWishlistItem (storage family_app) j))
          \<and> (\<forall>sessionId2 user2 now2.
                sessionId2 \<noteq> [] \<and> sessions family_app sessionId2 = Some user2 \<longrightarrow>
                post_reserve reserved_app now2 (Some sessionId2) (Some 1) =
                  (reserved_app,
                   respond 400 (Message (if 1 = s_id user2
                                         then ''Cannot reserve your own item''
                                         else ''Item already reserved''))))"
    using c unfolding reserved_app_def by (simp add: truthy_bool_def)
  have g: "getWishlistItem (storage reserved_app) 1 =
             Some (?bike\<lparr>w_isReserved := Some True, w_reservedByUserId := Some 2\<rparr>)"
    using c' [THEN conjunct2, THEN conjunct1, THEN spec, of 1] by simp
  note again = c' [THEN conjunct2, THEN conjunct2, THEN spec, THEN spec, THEN spec, THEN mp]
  have b: "post_reserve reserved_app 41 (Some ''0.sb'') (Some 1) =
        (reserved_app, respond 400 (Message ''Item already reserved''))"
    using again [OF conjI [OF ne(1) sessions_family_app(2)], of 41] by simp
  have cc: "post_reserve reserved_app 41 (Some ''0.sc'') (Some 1) =
        (reserved_app, respond 400 (Message ''Item already reserved''))"
    using again [OF conjI [OF ne(2) sessions_family_app(3)], of 41] by simp
  have a: "post_reserve reserved_app 41 (Some ''0.sa'') (Some 1) =
        (reserved_app, respond 400 (Message ''Cannot reserve your own item''))"
    using again [OF conjI [OF ne(3) sessions_family_app(1)], of 41] by simp
  from ok g b cc a show ?thesis by simp
qed

section \<open>The reservation invariant and the update route\<close>

text \<open>
  C2. The invariant \<open>isReserved = (reservedByUserId \<noteq> null)\<close> does not
  survive \<open>PUT /api/wishlist-items/:id\<close>: the route hands the request body to the
  store unvalidated. Anna sends \<open>{isReserved: true}\<close> for her open bike; the route
  answers 200 and the stored bike is reserved by nobody. The invariant holds before the
  call and fails after it. (The routes for create, delete, reserve and unreserve keep
  it: \<open>reservation_invariant_routes\<close>.)
\<close>

theorem put_breaks_reservation_invariant:
  "reservation_invariant (storage family_app)
   \<and> status (snd (put_wishlist_item family_app (Some ''0.sa'') (Some 1)
                     (no_updates\<lparr>pw_isReserved := Some (Some True)\<rparr>))) = 200
   \<and> map_option (\<lambda>item. (w_userId item, w_isReserved item, w_reservedByUserId item))
        (getWishlistItem
           (storage (fst (put_wishlist_item family_app (Some ''0.sa'') (Some 1)
                            (no_updates\<lparr>pw_isReserved := Some (Some True)\<rparr>)))) 1) =
        Some (1, Some True, None)
   \<and> \<not> reservation_invariant
          (storage (fst (put_wishlist_item family_app (Some ''0.sa'') (Some 1)
                           (no_updates\<lparr>pw_isReserved := Some (Some True)\<rparr>))))"
  by (simp add: put_wishlist_item_def requireAuth_def sessions_family_app storage_family_app
      getWishlistItem_def updateWishlistItem_def spread_item_def spread_def no_updates_def
      reservation_invariant_def reservation_consistent_def truthy_bool_def Map_values_def
      Let_def)

section \<open>What an owner may do to an item of their own\<close>

text \<open>
  C3 as stated fails for delete: Anna owns the bike, her
  \<open>DELETE /api/wishlist-items/1\<close> answers 200 and the bike is gone.
\<close>

theorem owner_delete_succeeds:
  "map_option w_userId (getWishlistItem (storage family_app) 1) = Some 1
   \<and> map_option s_id (sessions family_app ''0.sa'') = Some 1
   \<and> snd (delete_wishlist_item family_app (Some ''0.sa'') (Some 1)) =
       respond 200 (Message ''Item deleted'')
   \<and> getWishlistItem (storage (fst (delete_wishlist_item family_app (Some ''0.sa'') (Some 1)))) 1
       = None"
  by (simp add: delete_wishlist_item_def requireAuth_def sessions_family_app
      storage_family_app getWishlistItem_def deleteWishlistItem_def Map_delete_def Let_def)

text \<open>
  C3. as amended. For a user and an item of their own: reserve is refused with
  400 and attaching a secret note is refused with 400, both leaving the state unchanged;
  unreserve is refused with 400, leaving the state unchanged, whenever the item is not
  recorded as reserved by its owner; delete succeeds with 200 and removes the item (only
  the owner may delete).
\<close>

theorem owner_guards:
  assumes "sessionId \<noteq> []" and "sessions st sessionId = Some user"
      and "getWishlistItem (storage st) i = Some item"
      and "w_userId item = s_id user"
  shows "post_reserve st now (Some sessionId) (Some i) =
           (st, respond 400 (Message ''Cannot reserve your own item''))
       \<and> (\<forall>d. in_wishlistItemId d = i \<longrightarrow>
              post_secret_notes st now (Some sessionId) (Some d) =
                (st, respond 400 (Message ''Cannot add notes to your own items'')))
       \<and> (w_reservedByUserId item \<noteq> Some (s_id user) \<longrightarrow>
              post_unreserve st (Some sessionId) (Some i) =
                (st, respond 400 (Message ''Cannot unreserve this item'')))
       \<and> delete_wishlist_item st (Some sessionId) (Some i) =
           (st\<lparr>storage := (storage st)\<lparr>wishlistItems :=
                                Map_delete (wishlistItems (storage st)) i\<rparr>\<rparr>,
            respond 200 (Message ''Item deleted''))
       \<and> getWishlistItem (storage (fst (delete_wishlist_item st (Some sessionId) (Some i)))) i
           = None"
proof -
  note auth = requireAuth_session [OF assms(1,2)]
  have 1: "post_reserve st now (Some sessionId) (Some i) =
           (st, respond 400 (Message ''Cannot reserve your own item''))"
    using assms(3,4) by (simp add: post_reserve_session [OF assms(1,2)])
  have 2: "\<forall>d. in_wishlistItemId d = i \<longrightarrow>
              post_secret_notes st now (Some sessionId) (Some d) =
                (st, respond 400 (Message ''Cannot add notes to your own items''))"
    using assms(3,4) by (simp add: post_secret_notes_def auth)
  have 3: "w_reservedByUserId item \<noteq> Some (s_id user) \<longrightarrow>
              post_unreserve st (Some sessionId) (Some i) =
                (st, respond 400 (Message ''Cannot unreserve this item''))"
    using assms(3,4) by (simp add: post_unreserve_def auth)
  have 4: "delete_wishlist_item st (Some sessionId) (Some i) =
           (st\<lparr>storage := (storage st)\<lparr>wishlistItems :=
                                Map_delete (wishlistItems (storage st)) i\<rparr>\<rparr>,
            respond 200 (Message ''Item deleted''))"
    using assms(3,4) by (simp add: delete_wishlist_item_def auth deleteWishlistItem_def)
  have 5: "getWishlistItem (storage (fst (delete_wishlist_item st (Some sessionId) (Some i)))) i
           = None"
    unfolding 4 by (simp add: getWishlistItem_def Map_get_Map_delete)
  from 1 2 3 4 5 show ?thesis by blast
qed

text \<open>
  Anna and her bike, once Ben has reserved it.
\<close>

theorem owner_guards_witness:
  "post_reserve reserved_app 41 (Some ''0.sa'') (Some 1) =
     (reserved_app, respond 400 (Message ''Cannot reserve your own item''))
   \<and> post_secret_notes reserved_app 41 (Some ''0.sa'')
        (Some \<lparr>in_wishlistItemId = 1, in_note = ''mine''\<rparr>) =
     (reserved_app, respond 400 (Message ''Cannot add notes to your own items''))
   \<and> post_unreserve reserved_app (Some ''0.sa'') (Some 1) =
     (reserved_app, respond 400 (Message ''Cannot unreserve this item''))
   \<and> snd (delete_wishlist_item reserved_app (Some ''0.sa'') (Some 1)) =
       respond 200 (Message ''Item deleted'')
   \<and> getWishlistItem
        (storage (fst (delete_wishlist_item reserved_app (Some ''0.sa'') (Some 1)))) 1 = None"
proof -
  let ?bike = "\<lparr>w_id = 1, w_userId = 1, w_name = ''Bike'', w_description = None,
                w_price = Some 2000, w_category = None, w_priority = Some ''medium'',
                w_storeLink = None, w_imageUrl = None, w_isReserved = Some True,
                w_reservedByUserId = Some 2, w_createdAt = Some 30\<rparr>"
  let ?anna = "\<lparr>s_id = 1, s_name = ''Anna'', s_email = Some ''anna@example.org'',
                s_familyGroupId = Some 1\<rparr>"
  have ne: "''0.sa'' \<noteq> []" by simp
  have sess: "sessions reserved_app ''0.sa'' = Some ?anna"
    by (simp add: sessions_reserved_app sessions_family_app)
  have item: "getWishlistItem (storage reserved_app) 1 = Some ?bike"
    by (simp add: getWishlistItem_def storage_reserved_app)
  have own: "w_userId ?bike = s_id ?anna" by simp
  note t = owner_guards [OF ne sess item own, of 41]
  have 1: "post_reserve reserved_app 41 (Some ''0.sa'') (Some 1) =
     (reserved_app, respond 400 (Message ''Cannot reserve your own item''))"
    by (rule t [THEN conjunct1])
  have 2: "post_secret_notes reserved_app 41 (Some ''0.sa'')
        (Some \<lparr>in_wishlistItemId = 1, in_note = ''mine''\<rparr>) =
     (reserved_app, respond 400 (Message ''Cannot add notes to your own items''))"
    using t [THEN conjunct2, THEN conjunct1, THEN spec,
             of "\<lparr>in_wishlistItemId = 1, in_note = ''mine''\<rparr>"] by simp
  have 3: "post_unreserve reserved_app (Some ''0.sa'') (Some 1) =
     (reserved_app, respond 400 (Message ''Cannot unreserve this item''))"
    using t [THEN conjunct2, THEN conjunct2, THEN conjunct1] by simp
  have 4: "snd (delete_wishlist_item reserved_app (Some ''0.sa'') (Some 1)) =
       respond 200 (Message ''Item deleted'')"
    unfolding t [THEN conjunct2, THEN conjunct2, THEN conjunct2, THEN conjunct1] by simp
  have 5: "getWishlistItem
        (storage (fst (delete_wishlist_item reserved_app (Some ''0.sa'') (Some 1)))) 1 = None"
    by (rule t [THEN conjunct2, THEN conjunct2, THEN conjunct2, THEN conjunct2])
  from 1 2 3 4 5 show ?thesis by blast
qed

section \<open>Activities logged by reserve and unreserve\<close>

text \<open>
  C4 as stated fails. Anna, the owner of the bike, belongs to the family group 1.
  Ben's unreserve succeeds and the activity log is what it was. Carl, whose session has
  no family group, reserves the bike with success and nothing is logged either.
\<close>

theorem unreserve_logs_no_activity:
  "map_option u_familyGroupId (getUser (storage reserved_app) 1) = Some (Some 1)
   \<and> map_option w_userId (getWishlistItem (storage reserved_app) 1) = Some 1
   \<and> status (snd (post_unreserve reserved_app (Some ''0.sb'') (Some 1))) = 200
   \<and> map_option w_isReserved
        (getWishlistItem (storage (fst (post_unreserve reserved_app (Some ''0.sb'') (Some 1)))) 1)
       = Some (Some False)
   \<and> activities (storage (fst (post_unreserve reserved_app (Some ''0.sb'') (Some 1)))) =
       activities (storage reserved_app)
   \<and> status (snd (post_reserve family_app 40 (Some ''0.sc'') (Some 1))) = 200
   \<and> activities (storage (fst (post_reserve family_app 40 (Some ''0.sc'') (Some 1)))) =
       activities (storage family_app)"
  by (simp add: post_unreserve_def post_reserve_def requireAuth_def sessions_reserved_app
      sessions_family_app storage_reserved_app storage_family_app getUser_def
      getWishlistItem_def unreserveWishlistItem_def reserveWishlistItem_def truthy_bool_def
      Let_def)

lemma post_unreserve_success:
  assumes auth: "sessionId \<noteq> []" "sessions st sessionId = Some user"
      and item: "getWishlistItem (storage st) i = Some item"
      and ok: "truthy_bool (w_isReserved item)" "w_reservedByUserId item = Some (s_id user)"
  shows "post_unreserve st (Some sessionId) (Some i) =
           (st\<lparr>storage := (storage st)\<lparr>wishlistItems :=
               Map_set (wishlistItems (storage st)) i
                 (item\<lparr>w_isReserved := Some False, w_reservedByUserId := None\<rparr>)\<rparr>\<rparr>,
            respond 200 (ItemJson (Some (item\<lparr>w_isReserved := Some False,
                                               w_reservedByUserId := None\<rparr>))))"
proof -
  have "Map_get (wishlistItems (storage st)) i = Some item"
    using item by (simp add: getWishlistItem_def)
  then show ?thesis
    using item ok
    by (simp add: post_unreserve_def requireAuth_session [OF auth] unreserveWishlistItem_def
        Let_def)
qed

text \<open>
  C4. as amended. A successful reserve by a requester whose session carries a family
  group \<open>g\<close> logs one activity: \<open>reserved_item\<close>, by the requester, in group \<open>g\<close>, with
  \<open>targetUserId\<close> the owner and the item's name; it is stored under the next activity
  id, which appends it to the log when that id is unused. A successful reserve by a
  requester whose session has no family group logs nothing, and a successful unreserve
  logs nothing.
\<close>

theorem reserve_activity_logging:
  assumes "sessionId \<noteq> []" and "sessions st sessionId = Some user"
      and "getWishlistItem (storage st) i = Some item"
  shows "(w_userId item \<noteq> s_id user \<and> \<not> truthy_bool (w_isReserved item) \<longrightarrow>
            status (snd (post_reserve st now (Some sessionId) (Some i))) = 200
          \<and> (\<forall>g. s_familyGroupId user = Some g \<and> g \<noteq> 0 \<longrightarrow>
                activities (storage (fst (post_reserve st now (Some sessionId) (Some i)))) =
                  Map_set (activities (storage st)) (currentActivityId (storage st))
                    \<lparr> a_id = currentActivityId (storage st), a_userId = s_id user,
                      a_familyGroupId = g, a_action = ''reserved_item'',
                      a_itemName = Some (w_name item),
                      a_targetUserId = Some (w_userId item), a_createdAt = Some now \<rparr>
              \<and> (Map_get (activities (storage st)) (currentActivityId (storage st)) = None \<longrightarrow>
                   Map_values (activities
                      (storage (fst (post_reserve st now (Some sessionId) (Some i))))) =
                     Map_values (activities (storage st)) @
                     [\<lparr> a_id = currentActivityId (storage st), a_userId = s_id user,
                        a_familyGroupId = g, a_action = ''reserved_item'',
                        a_itemName = Some (w_name item),
                        a_targetUserId = Some (w_userId item), a_createdAt = Some now \<rparr>]))
          \<and> (\<not> truthy_num (s_familyGroupId user) \<longrightarrow>
                activities (storage (fst (post_reserve st now (Some sessionId) (Some i)))) =
                  activities (storage st)))
       \<and> (truthy_bool (w_isReserved item) \<and> w_reservedByUserId item = Some (s_id user) \<longrightarrow>
            status (snd (post_unreserve st (Some sessionId) (Some i))) = 200
          \<and> activities (storage (fst (post_unreserve st (Some sessionId) (Some i)))) =
              activities (storage st))"
proof (intro conjI impI allI)
  assume ok: "w_userId item \<noteq> s_id user \<and> \<not> truthy_bool (w_isReserved item)"
  note s = post_reserve_success [OF assms, of now]
  from ok show "status (snd (post_reserve st now (Some sessionId) (Some i))) = 200"
    by (simp add: s(1))
  {
    fix g
    assume g: "s_familyGroupId user = Some g \<and> g \<noteq> 0"
    from ok g
    show a: "activities (storage (fst (post_reserve st now (Some sessionId) (Some i)))) =
             Map_set (activities (storage st)) (currentActivityId (storage st))
               \<lparr> a_id = currentActivityId (storage st), a_userId = s_id user,
                 a_familyGroupId = g, a_action = ''reserved_item'',
                 a_itemName = Some (w_name item),
                 a_targetUserId = Some (w_userId item), a_createdAt = Some now \<rparr>"
      by (simp add: s(4))
    assume "Map_get (activities (storage st)) (currentActivityId (storage st)) = None"
    then show "Map_values (activities
                 (storage (fst (post_reserve st now (Some sessionId) (Some i))))) =
               Map_values (activities (storage st)) @
               [\<lparr> a_id = currentActivityId (storage st), a_userId = s_id user,
                  a_familyGroupId = g, a_action = ''reserved_item'',
                  a_itemName = Some (w_name item),
                  a_targetUserId = Some (w_userId item), a_createdAt = Some now \<rparr>]"
      unfolding a by (simp add: Map_set_fresh Map_values_def)
  }
  assume "\<not> truthy_num (s_familyGroupId user)"
  with ok show "activities (storage (fst (post_reserve st now (Some sessionId) (Some i)))) =
                  activities (storage st)"
    by (simp add: s(4) truthy_num_def split: option.splits)
next
  assume ok: "truthy_bool (w_isReserved item) \<and> w_reservedByUserId item = Some (s_id user)"
  then have u: "truthy_bool (w_isReserved item)" "w_reservedByUserId item = Some (s_id user)"
    by simp_all
  note s = post_unreserve_success [OF assms u]
  show "status (snd (post_unreserve st (Some sessionId) (Some i))) = 200"
    unfolding s by simp
  show "activities (storage (fst (post_unreserve st (Some sessionId) (Some i)))) =
              activities (storage st)"
    unfolding s by simp
qed

text \<open>
  Ben's reserve appends the fourth activity; Carl's reserve and Ben's unreserve
  append none.
\<close>

theorem reserve_activity_logging_witness:
  "Map_values (activities (storage reserved_app)) =
     Map_values (activities (storage family_app)) @
     [\<lparr>a_id = 4, a_userId = 2, a_familyGroupId = 1, a_action = ''reserved_item'',
       a_itemName = Some ''Bike'', a_targetUserId = Some 1, a_createdAt = Some 40\<rparr>]
   \<and> activities (storage (fst (post_reserve family_app 40 (Some ''0.sc'') (Some 1)))) =
       activities (storage family_app)
   \<and> status (snd (post_unreserve reserved_app (Some ''0.sb'') (Some 1))) = 200
   \<and> activities (storage (fst (post_unreserve reserved_app (Some ''0.sb'') (Some 1)))) =
       activities (storage reserved_app)"
proof -
  let ?bike = "\<lparr>w_id = 1, w_userId = 1, w_name = ''Bike'', w_description = None,
                w_price = Some 2000, w_category = None, w_priority = Some ''medium'',
                w_storeLink = None, w_imageUrl = None, w_isReserved = Some False,
                w_reservedByUserId = None, w_createdAt = Some 30\<rparr>"
  have ne: "''0.sb'' \<noteq> []" "''0.sc'' \<noteq> []" by simp_all
  have item: "getWishlistItem (storage family_app) 1 = Some ?bike"
    by (simp add: getWishlistItem_def storage_family_app)
  have item': "getWishlistItem (storage reserved_app) 1 =
                 Some (?bike\<lparr>w_isReserved := Some True, w_reservedByUserId := Some 2\<rparr>)"
    by (simp add: getWishlistItem_def storage_reserved_app)
  have sb': "sessions reserved_app ''0.sb'' =
     Some \<lparr>s_id = 2, s_name = ''Ben'', s_email = Some ''ben@example.org'',
            s_familyGroupId = Some 1\<rparr>"
    by (simp add: sessions_reserved_app sessions_family_app)
  have ok: "w_userId ?bike \<noteq> 2 \<and> \<not> truthy_bool (w_isReserved ?bike)"
    by (simp add: truthy_bool_def)
  have fresh: "Map_get (activities (storage family_app)) (currentActivityId (storage family_app))
                 = None"
    by (simp add: storage_family_app)
  note tb = reserve_activity_logging [OF ne(1) sessions_family_app(2) item, of 40,
              THEN conjunct1, THEN mp]
  have 1: "Map_values (activities (storage reserved_app)) =
     Map_values (activities (storage family_app)) @
     [\<lparr>a_id = 4, a_userId = 2, a_familyGroupId = 1, a_action = ''reserved_item'',
       a_itemName = Some ''Bike'', a_targetUserId = Some 1, a_createdAt = Some 40\<rparr>]"
    using tb [THEN conjunct2, THEN conjunct1, THEN spec, of 1] ok fresh
    unfolding reserved_app_def by (simp add: storage_family_app Map_values_def)
  note tc = reserve_activity_logging [OF ne(2) sessions_family_app(3) item, of 40,
              THEN conjunct1, THEN mp]
  have 2: "activities (storage (fst (post_reserve family_app 40 (Some ''0.sc'') (Some 1)))) =
       activities (storage family_app)"
    using tc [THEN conjunct2, THEN conjunct2] by (simp add: truthy_num_def truthy_bool_def)
  note tu = reserve_activity_logging [OF ne(1) sb' item', THEN conjunct2, THEN mp]
  have 3: "status (snd (post_unreserve reserved_app (Some ''0.sb'') (Some 1))) = 200
         \<and> activities (storage (fst (post_unreserve reserved_app (Some ''0.sb'') (Some 1)))) =
             activities (storage reserved_app)"
    using tu by (simp add: truthy_bool_def)
  from 1 2 3 show ?thesis by blast
qed

section \<open>The two stores on secret notes\<close>

text \<open>
  C5. The two stores do not agree on \<open>getSecretNotes\<close>. On the same notes (Ben's
  note on the bike) and the same request (item 1, user 3, Carl) \<open>MemStorage\<close> returns
  no note and \<open>DatabaseStorage\<close>, which ignores its \<open>userId\<close> argument, returns Ben's.
\<close>

theorem getSecretNotes_stores_differ:
  "Map_values (secretNotes (storage noted_app)) =
     [\<lparr>n_id = 1, n_wishlistItemId = 1, n_userId = 2, n_note = ''blue one'',
       n_createdAt = Some 50\<rparr>]
   \<and> MemStorage_getSecretNotes (storage noted_app) 1 3 = []
   \<and> DatabaseStorage_getSecretNotes (Map_values (secretNotes (storage noted_app))) 1 3 =
       [\<lparr>n_id = 1, n_wishlistItemId = 1, n_userId = 2, n_note = ''blue one'',
         n_createdAt = Some 50\<rparr>]"
  by (simp add: noted_app_def post_secret_notes_def requireAuth_def sessions_family_app
      storage_family_app getWishlistItem_def createSecretNote_def Map_values_def
      MemStorage_getSecretNotes_def DatabaseStorage_getSecretNotes_def Let_def)

section \<open>Invite codes\<close>

text \<open>
  C6. Invite codes are not kept unique by \<open>MemStorage\<close>. Ben creates a group and
  \<open>generateInviteCode\<close> returns K4J9QZ, the code of the group Smith: the route answers
  200 and the store holds two groups with that code.
\<close>

theorem duplicate_invite_code:
  "invite_codes_unique (storage family_app)
   \<and> status (snd (post_family_groups family_app 60 61 ''K4J9QZ'' (Some ''0.sb'')
                     (Some ''Jones''))) = 200
   \<and> map (\<lambda>g. (g_id g, g_name g, g_inviteCode g))
        (Map_values (familyGroups (storage second_group_app))) =
        [(1, ''Smith'', ''K4J9QZ''), (2, ''Jones'', ''K4J9QZ'')]
   \<and> \<not> invite_codes_unique (storage second_group_app)"
  by (simp add: second_group_app_def post_family_groups_def requireAuth_def
      sessions_family_app storage_family_app createFamilyGroup_def updateUserFamilyGroup_def
      createActivity_def invite_codes_unique_def Map_values_def Let_def)

section \<open>Joining with an unknown invite code\<close>

text \<open>
  C7. For an authenticated user and an invite code that is the code of no family
  group, \<open>POST /api/family-groups/join\<close> answers 404 and returns the state unchanged:
  the user record, the session entry and the activity log are as they were.
\<close>

theorem join_invalid_code:
  assumes "sessionId \<noteq> []" and "sessions st sessionId = Some user"
      and "\<forall>g \<in> set (Map_values (familyGroups (storage st))). Some (g_inviteCode g) \<noteq> inviteCode"
  shows "post_family_groups_join st now (Some sessionId) inviteCode =
           (st, respond 404 (Message ''Invalid invite code''))"
proof -
  have "getFamilyGroupByInviteCode (storage st) inviteCode = None"
    using assms(3) by (simp add: getFamilyGroupByInviteCode_def array_find_None)
  then show ?thesis
    by (simp add: post_family_groups_join_def requireAuth_session [OF assms(1,2)])
qed

text \<open>
  Carl joins with a wrong code, Ben with no code at all.
\<close>

theorem join_invalid_code_witness:
  "map g_inviteCode (Map_values (familyGroups (storage family_app))) = [''K4J9QZ'']
   \<and> post_family_groups_join family_app 70 (Some ''0.sc'') (Some ''K4J9QA'') =
       (family_app, respond 404 (Message ''Invalid invite code''))
   \<and> post_family_groups_join family_app 70 (Some ''0.sb'') None =
       (family_app, respond 404 (Message ''Invalid invite code''))"
  using join_invalid_code [of "''0.sc''" family_app _ "Some ''K4J9QA''" 70, OF _ sessions_family_app(3)]
        join_invalid_code [of "''0.sb''" family_app _ None 70, OF _ sessions_family_app(2)]
  by (simp add: storage_family_app Map_values_def)

section \<open>getWishlistItems and getFamilyActivities\<close>

text \<open>
  C8. \<open>getWishlistItems\<close> returns exactly the items of the user, newest first
  by creation timestamp. \<open>getFamilyActivities\<close> with the cap \<open>n\<close> (10 when left out)
  returns at most \<open>n\<close> activities, all of the group, newest first; it returns \<open>n\<close> of
  them when the group has that many, and no activity it leaves out is newer than one it
  returns.
\<close>

theorem newest_first_queries:
  "mset (getWishlistItems s userId) =
     mset (filter (\<lambda>item. w_userId item = userId) (Map_values (wishlistItems s)))
   \<and> sorted_wrt (\<lambda>a b. getTime_or_0 (w_createdAt b) \<le> getTime_or_0 (w_createdAt a))
        (getWishlistItems s userId)
   \<and> length (getFamilyActivities s g limit) \<le> (case limit of None \<Rightarrow> 10 | Some n \<Rightarrow> n)
   \<and> length (getFamilyActivities s g limit) =
        min (case limit of None \<Rightarrow> 10 | Some n \<Rightarrow> n)
            (length (filter (\<lambda>a. a_familyGroupId a = g) (Map_values (activities s))))
   \<and> (\<forall>a \<in> set (getFamilyActivities s g limit).
          a \<in> set (Map_values (activities s)) \<and> a_familyGroupId a = g)
   \<and> sorted_wrt (\<lambda>a b. getTime_or_0 (a_createdAt b) \<le> getTime_or_0 (a_createdAt a))
        (getFamilyActivities s g limit)
   \<and> (\<forall>b \<in> set (Map_values (activities s)).
          a_familyGroupId b = g \<and> b \<notin> set (getFamilyActivities s g limit) \<longrightarrow>
          (\<forall>a \<in> set (getFamilyActivities s g limit).
             getTime_or_0 (a_createdAt b) \<le> getTime_or_0 (a_createdAt a)))"
proof -
  let ?ki = "\<lambda>a. getTime_or_0 (w_createdAt a)"
  let ?ka = "\<lambda>a. getTime_or_0 (a_createdAt a)"
  let ?n = "case limit of None \<Rightarrow> 10 | Some n \<Rightarrow> n"
  let ?mine = "filter (\<lambda>a. a_familyGroupId a = g) (Map_values (activities s))"
  let ?all = "array_sort newest_first_activities ?mine"
  have ci: "newest_first_items = (\<lambda>a b. ?ki b - ?ki a)"
    by (intro ext) (simp add: newest_first_items_def)
  have ca: "newest_first_activities = (\<lambda>a b. ?ka b - ?ka a)"
    by (intro ext) (simp add: newest_first_activities_def)
  have res: "getFamilyActivities s g limit = take ?n ?all"
    by (simp add: getFamilyActivities_def)
  have sorted_all: "sorted_wrt (\<lambda>a b. ?ka b \<le> ?ka a) ?all"
    unfolding ca by (rule sorted_array_sort_newest_first)
  have 1: "mset (getWishlistItems s userId) =
     mset (filter (\<lambda>item. w_userId item = userId) (Map_values (wishlistItems s)))"
    by (simp add: getWishlistItems_def mset_array_sort)
  have 2: "sorted_wrt (\<lambda>a b. ?ki b \<le> ?ki a) (getWishlistItems s userId)"
    unfolding getWishlistItems_def ci by (rule sorted_array_sort_newest_first)
  have 3: "length (getFamilyActivities s g limit) = min ?n (length ?mine)"
    unfolding res by (simp add: length_array_sort min.commute)
  have 4: "\<forall>a \<in> set (getFamilyActivities s g limit).
          a \<in> set (Map_values (activities s)) \<and> a_familyGroupId a = g"
  proof
    fix a assume "a \<in> set (getFamilyActivities s g limit)"
    then have "a \<in> set ?all" unfolding res by (rule in_set_takeD)
    then show "a \<in> set (Map_values (activities s)) \<and> a_familyGroupId a = g"
      by (simp add: set_array_sort)
  qed
  have 5: "sorted_wrt (\<lambda>a b. ?ka b \<le> ?ka a) (getFamilyActivities s g limit)"
    unfolding res using sorted_all by (rule sorted_wrt_take)
  have 6: "\<forall>b \<in> set (Map_values (activities s)).
          a_familyGroupId b = g \<and> b \<notin> set (getFamilyActivities s g limit) \<longrightarrow>
          (\<forall>a \<in> set (getFamilyActivities s g limit). ?ka b \<le> ?ka a)"
  proof (intro ballI impI)
    fix b a
    assume b: "b \<in> set (Map_values (activities s))"
       and bg: "a_familyGroupId b = g \<and> b \<notin> set (getFamilyActivities s g limit)"
       and a: "a \<in> set (getFamilyActivities s g limit)"
    have "b \<in> set ?all" using b bg by (simp add: set_array_sort)
    then have "b \<in> set (take ?n ?all) \<union> set (drop ?n ?all)"
      by (metis append_take_drop_id set_append)
    then have "b \<in> set (drop ?n ?all)" using bg unfolding res by blast
    with sorted_all a show "?ka b \<le> ?ka a"
      unfolding res by (rule sorted_wrt_take_drop [where P = "\<lambda>a b. ?ka b \<le> ?ka a"])
  qed
  from 3 have le: "length (getFamilyActivities s g limit) \<le> ?n" by simp
  from 1 2 le 3 4 5 6 show ?thesis by blast
qed

text \<open>
  The two newest of the three activities of the group Smith.
\<close>

theorem newest_first_queries_witness:
  "getFamilyActivities (storage family_app) 1 (Some 2) =
     [\<lparr>a_id = 3, a_userId = 1, a_familyGroupId = 1, a_action = ''added_item'',
       a_itemName = Some ''Bike'', a_targetUserId = None, a_createdAt = Some 31\<rparr>,
      \<lparr>a_id = 2, a_userId = 2, a_familyGroupId = 1, a_action = ''joined_group'',
       a_itemName = None, a_targetUserId = None, a_createdAt = Some 20\<rparr>]
   \<and> length (getFamilyActivities (storage family_app) 1 (Some 2)) \<le> 2
   \<and> length (getFamilyActivities (storage family_app) 1 (Some 2)) = min 2 3
   \<and> sorted_wrt (\<lambda>a b. getTime_or_0 (a_createdAt b) \<le> getTime_or_0 (a_createdAt a))
        (getFamilyActivities (storage family_app) 1 (Some 2))
   \<and> map w_name (getWishlistItems (storage family_app) 1) = [''Bike'']"
proof -
  have ev1: "getFamilyActivities (storage family_app) 1 (Some 2) =
     [\<lparr>a_id = 3, a_userId = 1, a_familyGroupId = 1, a_action = ''added_item'',
       a_itemName = Some ''Bike'', a_targetUserId = None, a_createdAt = Some 31\<rparr>,
      \<lparr>a_id = 2, a_userId = 2, a_familyGroupId = 1, a_action = ''joined_group'',
       a_itemName = None, a_targetUserId = None, a_createdAt = Some 20\<rparr>]"
    by (simp add: storage_family_app getFamilyActivities_def Map_values_def
        array_sort_def newest_first_activities_def getTime_or_0_def)
  have ev2: "map w_name (getWishlistItems (storage family_app) 1) = [''Bike'']"
    by (simp add: storage_family_app getWishlistItems_def Map_values_def
        array_sort_def newest_first_items_def getTime_or_0_def)
  have n: "length (filter (\<lambda>a. a_familyGroupId a = 1) (Map_values (activities (storage family_app)))) = 3"
    by (simp add: storage_family_app Map_values_def)
  note t = newest_first_queries [of "storage family_app" 1 1 "Some 2"]
  have len: "length (getFamilyActivities (storage family_app) 1 (Some 2)) = min 2 3"
    using t [THEN conjunct2, THEN conjunct2, THEN conjunct2, THEN conjunct1] unfolding n by simp
  have srt: "sorted_wrt (\<lambda>a b. getTime_or_0 (a_createdAt b) \<le> getTime_or_0 (a_createdAt a))
        (getFamilyActivities (storage family_app) 1 (Some 2))"
    by (rule t [THEN conjunct2, THEN conjunct2, THEN conjunct2, THEN conjunct2, THEN conjunct2, THEN conjunct1])
  have le: "length (getFamilyActivities (storage family_app) 1 (Some 2)) \<le> 2"
    using t [THEN conjunct2, THEN conjunct2, THEN conjunct1] by simp
  from ev1 ev2 le len srt show ?thesis by blast
qed

section \<open>The store-level reserve\<close>

lemma fst_DatabaseStorage_reserve:
  "fst (DatabaseStorage_reserveWishlistItem table i u) =
     map (\<lambda>row. if w_id row = i
                 then row\<lparr>w_isReserved := Some True, w_reservedByUserId := Some u\<rparr>
                 else row) table"
  by (simp add: DatabaseStorage_reserveWishlistItem_def Let_def)

lemma DatabaseStorage_reserve_rows:
  "\<forall>row \<in> set table. w_id row = i \<longrightarrow>
     row\<lparr>w_isReserved := Some True, w_reservedByUserId := Some u\<rparr>
       \<in> set (fst (DatabaseStorage_reserveWishlistItem table i u))"
proof (intro ballI impI)
  fix row assume r: "row \<in> set table" and i: "w_id row = i"
  let ?f = "\<lambda>row. if w_id row = i
                 then row\<lparr>w_isReserved := Some True, w_reservedByUserId := Some u\<rparr>
                 else row"
  have "?f row \<in> set (map ?f table)" using r unfolding set_map by (rule imageI)
  then show "row\<lparr>w_isReserved := Some True, w_reservedByUserId := Some u\<rparr>
       \<in> set (fst (DatabaseStorage_reserveWishlistItem table i u))"
    unfolding fst_DatabaseStorage_reserve using i by simp
qed

lemma DatabaseStorage_reserve_returns:
  "\<forall>row \<in> set table. w_id row = i \<longrightarrow>
     snd (DatabaseStorage_reserveWishlistItem table i u) \<noteq> None"
  by (simp add: DatabaseStorage_reserveWishlistItem_def Let_def filter_empty_conv
           split: list.splits) 

lemma DatabaseStorage_reserve_all:
  "\<forall>row \<in> set (fst (DatabaseStorage_reserveWishlistItem table i u)). w_id row = i \<longrightarrow>
     w_isReserved row = Some True \<and> w_reservedByUserId row = Some u"
proof (intro ballI impI)
  fix row
  assume r: "row \<in> set (fst (DatabaseStorage_reserveWishlistItem table i u))"
     and i: "w_id row = i"
  let ?f = "\<lambda>row. if w_id row = i
                 then row\<lparr>w_isReserved := Some True, w_reservedByUserId := Some u\<rparr>
                 else row"
  from r have "row \<in> ?f ` set table" unfolding fst_DatabaseStorage_reserve set_map .
  then obtain r0 where eq: "row = ?f r0" by (rule imageE)
  show "w_isReserved row = Some True \<and> w_reservedByUserId row = Some u"
  proof (cases "w_id r0 = i")
    case True
    with eq show ?thesis by simp
  next
    case False
    with eq i show ?thesis by simp
  qed
qed

text \<open>
  C9. The store's \<open>reserveWishlistItem\<close> checks nothing: for every
  existing item, whoever owns it and whoever has reserved it, it sets
  \<open>isReserved = true\<close> and overwrites \<open>reservedByUserId\<close> with the given user. The
  SQL-backed method does the same to every row of that id. The guards live in the route
  only, so a direct call takes over an existing reservation.
\<close>

theorem reserveWishlistItem_unconditional:
  assumes "getWishlistItem s i = Some item"
  shows "reserveWishlistItem s i u =
           (s\<lparr>wishlistItems := Map_set (wishlistItems s) i
                 (item\<lparr>w_isReserved := Some True, w_reservedByUserId := Some u\<rparr>)\<rparr>,
            Some (item\<lparr>w_isReserved := Some True, w_reservedByUserId := Some u\<rparr>))
       \<and> getWishlistItem (fst (reserveWishlistItem s i u)) i =
           Some (item\<lparr>w_isReserved := Some True, w_reservedByUserId := Some u\<rparr>)
       \<and> (\<forall>row \<in> set table. w_id row = i \<longrightarrow>
            row\<lparr>w_isReserved := Some True, w_reservedByUserId := Some u\<rparr>
              \<in> set (fst (DatabaseStorage_reserveWishlistItem table i u)))
       \<and> (\<forall>row \<in> set table. w_id row = i \<longrightarrow>
            snd (DatabaseStorage_reserveWishlistItem table i u) \<noteq> None)
       \<and> (\<forall>row \<in> set (fst (DatabaseStorage_reserveWishlistItem table i u)). w_id row = i \<longrightarrow>
            w_isReserved row = Some True \<and> w_reservedByUserId row = Some u)"
proof -
  have 1: "reserveWishlistItem s i u =
           (s\<lparr>wishlistItems := Map_set (wishlistItems s) i
                 (item\<lparr>w_isReserved := Some True, w_reservedByUserId := Some u\<rparr>)\<rparr>,
            Some (item\<lparr>w_isReserved := Some True, w_reservedByUserId := Some u\<rparr>))"
    by (rule reserveWishlistItem_Some [OF assms])
  have 2: "getWishlistItem (fst (reserveWishlistItem s i u)) i =
           Some (item\<lparr>w_isReserved := Some True, w_reservedByUserId := Some u\<rparr>)"
    unfolding 1 by (simp add: getWishlistItem_def Map_get_Map_set)
  from 1 2 DatabaseStorage_reserve_rows [of table i u]
       DatabaseStorage_reserve_returns [of table i u]
       DatabaseStorage_reserve_all [of table i u]
  show ?thesis by blast
qed

text \<open>
  Ben holds the reservation of Anna's bike; a direct call hands it to Carl, or to
  Anna herself.
\<close>

theorem reserveWishlistItem_unconditional_witness:
  "map_option w_userId (getWishlistItem (storage reserved_app) 1) = Some 1
   \<and> map_option w_reservedByUserId (getWishlistItem (storage reserved_app) 1) = Some (Some 2)
   \<and> map_option w_reservedByUserId
        (getWishlistItem (fst (reserveWishlistItem (storage reserved_app) 1 3)) 1) = Some (Some 3)
   \<and> map_option w_reservedByUserId
        (getWishlistItem (fst (reserveWishlistItem (storage reserved_app) 1 1)) 1) = Some (Some 1)
   \<and> map w_reservedByUserId
        (fst (DatabaseStorage_reserveWishlistItem
                (Map_values (wishlistItems (storage reserved_app))) 1 3)) = [Some 3]"
proof -
  have h: "getWishlistItem (storage reserved_app) 1 =
      Some \<lparr>w_id = 1, w_userId = 1, w_name = ''Bike'', w_description = None,
            w_price = Some 2000, w_category = None, w_priority = Some ''medium'',
            w_storeLink = None, w_imageUrl = None, w_isReserved = Some True,
            w_reservedByUserId = Some 2, w_createdAt = Some 30\<rparr>"
    by (simp add: getWishlistItem_def storage_reserved_app)
  have db: "map w_reservedByUserId
        (fst (DatabaseStorage_reserveWishlistItem
                (Map_values (wishlistItems (storage reserved_app))) 1 3)) = [Some 3]"
    by (simp add: DatabaseStorage_reserveWishlistItem_def storage_reserved_app Map_values_def)
  note t3 = reserveWishlistItem_unconditional [OF h, of 3, THEN conjunct2, THEN conjunct1]
  note t1 = reserveWishlistItem_unconditional [OF h, of 1, THEN conjunct2, THEN conjunct1]
  show ?thesis
    unfolding t3 t1 h db by simp
qed

section \<open>Activities of a user without a family group\<close>

text \<open>
  C10. For an authenticated user whose \<open>familyGroupId\<close> is \<open>null\<close>,
  \<open>GET /api/activities\<close> answers 200 with the empty array and leaves the state as it
  was; the answer is the same whatever the store holds, so nothing of the store is
  read. The other group-scoped read routes answer 404 to the same user.
\<close>

theorem get_activities_no_group:
  assumes "sessionId \<noteq> []" and "sessions st sessionId = Some user"
      and "s_familyGroupId user = None"
  shows "get_activities st (Some sessionId) = (st, respond 200 (ActivitiesJson []))
       \<and> (\<forall>s'. get_activities (st\<lparr>storage := s'\<rparr>) (Some sessionId) =
                 (st\<lparr>storage := s'\<rparr>, respond 200 (ActivitiesJson [])))
       \<and> get_family_groups_current st (Some sessionId) =
           (st, respond 404 (Message ''No family group''))
       \<and> get_wishlists_family st (Some sessionId) =
           (st, respond 404 (Message ''No family group''))"
  using assms
  by (simp add: get_activities_def get_family_groups_current_def get_wishlists_family_def
      requireAuth_def)

text \<open>
  Carl, while the store holds three activities.
\<close>

theorem get_activities_no_group_witness:
  "map_option s_familyGroupId (sessions family_app ''0.sc'') = Some None
   \<and> activities (storage family_app) \<noteq> []
   \<and> get_activities family_app (Some ''0.sc'') = (family_app, respond 200 (ActivitiesJson []))
   \<and> status (snd (get_family_groups_current family_app (Some ''0.sc''))) = 404"
  using get_activities_no_group [of "''0.sc''" family_app, OF _ sessions_family_app(3)]
  by (simp add: sessions_family_app storage_family_app)

end
